theory Spec2Isabelle
  imports Main "HOL-Library.AList"
begin

section \<open>The AI service of SupervIA: response cache, reasoning call, chat loop\<close>

text \<open>
  The development embeds three modules of the service:
  \<^item> \<^verbatim>\<open>src/config/redis.js\<close>: the in-memory stand-in for Redis and the \<^verbatim>\<open>aiCache\<close> helpers,
    with \<^verbatim>\<open>deleteKey\<close> of \<^verbatim>\<open>src/controllers/cache.controller.js\<close>;
  \<^item> \<^verbatim>\<open>src/services/openai.service.js\<close>: \<^verbatim>\<open>callOpenAI\<close>, \<^verbatim>\<open>getSystemPrompt\<close> and
    \<^verbatim>\<open>getFallbackResponse\<close>;
  \<^item> \<^verbatim>\<open>src/controllers/ops-assistant.controller.js\<close>: \<^verbatim>\<open>buildChatPrompt\<close> and \<^verbatim>\<open>chat\<close>.

  A JavaScript string is modelled by the bytes of its UTF-8 encoding, so an accented
  letter of the French texts is two \<^typ>\<open>char\<close>s. Nothing below measures the length of such
  a text. \<^verbatim>\<open>null\<close> and \<^verbatim>\<open>undefined\<close> are \<^const>\<open>None\<close>; a thrown exception is the left
  summand of a sum type. What the process cannot decide by itself (the answer of the
  OpenAI endpoint, MD5, \<^verbatim>\<open>JSON.stringify\<close>, \<^verbatim>\<open>uuidv4\<close>, the clock, the outcome of a tool's
  HTTP request) is a parameter of the function that uses it. Logging and Prometheus
  counters do not influence any result and are left out.
\<close>

subsection \<open>The fixed texts of the source\<close>

definition systemPrompt_content :: string where
  \<comment> \<open>buildChatPrompt: systemPrompt.content\<close>
  "systemPrompt_content =
    ''You are SupervIA, an expert-level AI operations assistant fo'' @
    ''r a microservices monitoring platform.'' @ [CHR 0x0A, CHR 0x0A] @
    ''## Your Capabilities'' @ [CHR 0x0A] @
    ''You have access to powerful tools that let you:'' @ [CHR 0x0A] @
    ''- Query real-time metrics from Prometheus'' @ [CHR 0x0A] @
    ''- Get historical performance data'' @ [CHR 0x0A] @ ''- Check service health status'' @
    [CHR 0x0A] @ ''- Monitor active alerts'' @ [CHR 0x0A] @ ''- Generate custom dashboards'' @
    [CHR 0x0A] @ ''- Perform automated diagnostics'' @ [CHR 0x0A] @
    ''- Analyze system performance'' @ [CHR 0x0A, CHR 0x0A] @ ''## Your Personality'' @
    [CHR 0x0A] @ ''- You are helpful, professional, and technically precise'' @ [CHR 0x0A] @
    ''- You speak in clear, actionable terms'' @ [CHR 0x0A] @
    ''- You provide context and explanations for your findings'' @ [CHR 0x0A] @
    ''- You prioritize critical issues and suggest solutions'' @ [CHR 0x0A] @
    ''- You can work in both French and English'' @ [CHR 0x0A, CHR 0x0A] @
    ''## How to Use Your Tools'' @ [CHR 0x0A] @ ''1. **For current metrics**: Use '' @
    [CHR 0x60] @ ''prometheusQuery'' @ [CHR 0x60] @
    '' for instant values (CPU, memory, error rates, etc.)'' @ [CHR 0x0A] @
    ''2. **For trends and charts**: Use '' @ [CHR 0x60] @ ''prometheusRangeQuery'' @
    [CHR 0x60] @ '' for time-series analysis'' @ [CHR 0x0A] @
    ''3. **For system status**: Use '' @ [CHR 0x60] @ ''getServiceHealth'' @ [CHR 0x60] @
    '' to check if services are running'' @ [CHR 0x0A] @ ''4. **For issues**: Use '' @
    [CHR 0x60] @ ''getActiveAlerts'' @ [CHR 0x60] @ '' to see what needs attention'' @
    [CHR 0x0A] @ ''5. **For dashboards**: Use '' @ [CHR 0x60] @ ''generateDashboard'' @
    [CHR 0x60] @ '' when users want to create monitoring views'' @ [CHR 0x0A] @
    ''6. **For analysis**: Use '' @ [CHR 0x60] @ ''analyzePerformance'' @ [CHR 0x60] @
    '' for comprehensive performance insights'' @ [CHR 0x0A] @
    ''7. **For troubleshooting**: Use '' @ [CHR 0x60] @ ''diagnoseIssue'' @ [CHR 0x60] @
    '' when users report problems'' @ [CHR 0x0A, CHR 0x0A] @ ''## Response Strategy'' @
    [CHR 0x0A] @ ''- ALWAYS use tools when you need data. Don'' @ [CHR 0x27] @
    ''t guess or use outdated information'' @ [CHR 0x0A] @
    ''- If a user asks about performance, check actual metrics'' @ [CHR 0x0A] @
    ''- If they report issues, investigate the current system stat'' @ ''e'' @ [CHR 0x0A] @
    ''- If they want dashboards, offer to generate them'' @ [CHR 0x0A] @
    ''- Provide actionable insights and recommendations'' @ [CHR 0x0A] @
    ''- When appropriate, suggest follow-up actions or monitoring'' @ [CHR 0x0A, CHR 0x0A] @
    ''## Common Scenarios'' @ [CHR 0x0A] @ ''- **'' @ [CHR 0x22] @
    ''How is the system performing?'' @ [CHR 0x22] @ ''** '' @ [CHR 0xE2, CHR 0x86, CHR 0x92] @
    '' Check health, get key metrics, analyze trends'' @ [CHR 0x0A] @ ''- **'' @ [CHR 0x22] @
    ''I'' @ [CHR 0x27] @ ''m seeing errors'' @ [CHR 0x22] @ ''** '' @
    [CHR 0xE2, CHR 0x86, CHR 0x92] @ '' Check alerts, query error rates, diagnose issues'' @
    [CHR 0x0A] @ ''- **'' @ [CHR 0x22] @ ''Create a dashboard for X'' @ [CHR 0x22] @ ''** '' @
    [CHR 0xE2, CHR 0x86, CHR 0x92] @ '' Generate a custom dashboard configuration'' @
    [CHR 0x0A] @ ''- **'' @ [CHR 0x22] @ ''What'' @ [CHR 0x27] @ ''s wrong with service Y?'' @
    [CHR 0x22] @ ''** '' @ [CHR 0xE2, CHR 0x86, CHR 0x92] @
    '' Check health, analyze performance, look for alerts'' @ [CHR 0x0A] @ ''- **'' @
    [CHR 0x22] @ ''Show me trends'' @ [CHR 0x22] @ ''** '' @ [CHR 0xE2, CHR 0x86, CHR 0x92] @
    '' Use range queries to get historical data'' @ [CHR 0x0A, CHR 0x0A] @
    ''Remember: You are the eyes and brain of the monitoring syste'' @
    ''m. Use your tools to provide accurate, real-time insights.''"

definition maxToolCalls_content :: string where
  \<comment> \<open>chat: the content written when executionCount >= maxToolCalls\<close>
  "maxToolCalls_content =
    ''J'' @ [CHR 0x27] @ ''ai rencontr'' @ [CHR 0xC3, CHR 0xA9] @ '' des difficult'' @
    [CHR 0xC3, CHR 0xA9] @ ''s techniques pour r'' @ [CHR 0xC3, CHR 0xA9] @ ''pondre '' @
    [CHR 0xC3, CHR 0xA0] @ '' votre demande. Pourriez-vous la reformuler ? ''"

definition msg_invalid_response :: string where
  \<comment> \<open>the message of the Error thrown on an invalid final answer\<close>
  "msg_invalid_response =
    ''R'' @ [CHR 0xC3, CHR 0xA9] @ ''ponse OpenAI invalide''"

definition msg_invalid_prompt :: string where
  \<comment> \<open>callOpenAI: prompt neither a string nor an array\<close>
  "msg_invalid_prompt =
    ''Format de prompt invalide''"

definition msg_rate_limit :: string where
  \<comment> \<open>callOpenAI: error.code rate_limit_exceeded\<close>
  "msg_rate_limit =
    ''Limite de taux API d'' @ [CHR 0xC3, CHR 0xA9] @ ''pass'' @ [CHR 0xC3, CHR 0xA9] @
    ''e. Veuillez r'' @ [CHR 0xC3, CHR 0xA9] @ ''essayer plus tard.''"

definition msg_quota :: string where
  \<comment> \<open>callOpenAI: error.code insufficient_quota\<close>
  "msg_quota =
    ''Quota API insuffisant.''"

definition msg_invalid_request :: string where
  \<comment> \<open>callOpenAI: error.code invalid_request_error, prefix of the message\<close>
  "msg_invalid_request =
    ''Requ'' @ [CHR 0xC3, CHR 0xAA] @ ''te invalide: ''"

definition msg_tool_error :: string where
  \<comment> \<open>chat: prefix of the content of a failed tool call\<close>
  "msg_tool_error =
    ''Erreur: ''"

definition msg_tool_missing_pre :: string where
  \<comment> \<open>chat: unregistered tool, text before the name\<close>
  "msg_tool_missing_pre =
    ''Erreur: outil ''"

definition msg_tool_missing_post :: string where
  \<comment> \<open>chat: unregistered tool, text after the name\<close>
  "msg_tool_missing_post =
    '' non trouv'' @ [CHR 0xC3, CHR 0xA9]"

definition prompts_dashboard :: string where
  \<comment> \<open>getSystemPrompt: prompts.dashboard\<close>
  "prompts_dashboard =
    ''Tu es un expert en g'' @ [CHR 0xC3, CHR 0xA9] @ ''n'' @ [CHR 0xC3, CHR 0xA9] @
    ''ration de dashboards pour SupervIA, une plateforme de superv'' @ ''ision d'' @
    [CHR 0x27] @ ''infrastructure.'' @ [CHR 0x0A, CHR 0x0A] @ ''Ton r'' @
    [CHR 0xC3, CHR 0xB4] @ ''le est de:'' @ [CHR 0x0A] @
    ''1. Analyser les besoins de supervision exprim'' @ [CHR 0xC3, CHR 0xA9] @ ''s par l'' @
    [CHR 0x27] @ ''utilisateur'' @ [CHR 0x0A] @ ''2. Proposer des m'' @ [CHR 0xC3, CHR 0xA9] @
    ''triques pertinentes '' @ [CHR 0xC3, CHR 0xA0] @ '' partir de la liste fournie'' @
    [CHR 0x0A] @ ''3. G'' @ [CHR 0xC3, CHR 0xA9] @ ''n'' @ [CHR 0xC3, CHR 0xA9] @
    ''rer des configurations JSON VALIDES pour les dashboards'' @ [CHR 0x0A] @
    ''4. Proposer des layouts optimaux et esth'' @ [CHR 0xC3, CHR 0xA9] @ ''tiques'' @
    [CHR 0x0A, CHR 0x0A] @ ''Tu dois TOUJOURS r'' @ [CHR 0xC3, CHR 0xA9] @
    ''pondre en JSON valide avec la structure suivante. Ne fournis'' @
    '' AUCUN texte en dehors de ce JSON.'' @ [CHR 0x0A, CHR 0x0A] @ ''{'' @ [CHR 0x0A] @
    ''  '' @ [CHR 0x22] @ ''dashboard'' @ [CHR 0x22] @ '': {'' @ [CHR 0x0A] @ ''    '' @
    [CHR 0x22] @ ''title'' @ [CHR 0x22] @ '': '' @ [CHR 0x22] @
    ''Titre du Dashboard (string)'' @ [CHR 0x22] @ '','' @ [CHR 0x0A] @ ''    '' @ [CHR 0x22] @
    ''description'' @ [CHR 0x22] @ '': '' @ [CHR 0x22] @
    ''Description du dashboard (string)'' @ [CHR 0x22] @ '','' @ [CHR 0x0A] @ ''    '' @
    [CHR 0x22] @ ''layout'' @ [CHR 0x22] @ '': '' @ [CHR 0x22] @ ''grid'' @ [CHR 0x22] @
    '','' @ [CHR 0x0A] @ ''    '' @ [CHR 0x22] @ ''blocks'' @ [CHR 0x22] @ '': ['' @
    [CHR 0x0A] @ ''      {'' @ [CHR 0x0A] @ ''        '' @ [CHR 0x22] @ ''id'' @ [CHR 0x22] @
    '': '' @ [CHR 0x22] @ ''identifiant-unique-pour-le-bloc (string)'' @ [CHR 0x22] @ '','' @
    [CHR 0x0A] @ ''        '' @ [CHR 0x22] @ ''type'' @ [CHR 0x22] @ '': '' @ [CHR 0x22] @
    ''type-de-bloc (string, l'' @ [CHR 0x27] @ ''un de : '' @ [CHR 0x27] @ ''MetricBlock'' @
    [CHR 0x27] @ '', '' @ [CHR 0x27] @ ''LineChartBlock'' @ [CHR 0x27] @ '', '' @ [CHR 0x27] @
    ''BarChartBlock'' @ [CHR 0x27] @ '', '' @ [CHR 0x27] @ ''TableBlock'' @ [CHR 0x27] @
    '', '' @ [CHR 0x27] @ ''AlertListBlock'' @ [CHR 0x27] @ '', '' @ [CHR 0x27] @
    ''StatusBlock'' @ [CHR 0x27] @ '', '' @ [CHR 0x27] @ ''TextBlock'' @ [CHR 0x27] @ '')'' @
    [CHR 0x22] @ '','' @ [CHR 0x0A] @ ''        '' @ [CHR 0x22] @ ''title'' @ [CHR 0x22] @
    '': '' @ [CHR 0x22] @ ''Titre du bloc (string)'' @ [CHR 0x22] @ '','' @ [CHR 0x0A] @
    ''        '' @ [CHR 0x22] @ ''description'' @ [CHR 0x22] @ '': '' @ [CHR 0x22] @
    ''Description du bloc (optionnel, string)'' @ [CHR 0x22] @ '','' @ [CHR 0x0A] @
    ''        '' @ [CHR 0x22] @ ''position'' @ [CHR 0x22] @ '': {'' @ [CHR 0x22] @ ''x'' @
    [CHR 0x22] @ '': 0, '' @ [CHR 0x22] @ ''y'' @ [CHR 0x22] @ '': 0, '' @ [CHR 0x22] @ ''w'' @
    [CHR 0x22] @ '': 4, '' @ [CHR 0x22] @ ''h'' @ [CHR 0x22] @ '': 3},'' @ [CHR 0x0A] @
    ''        '' @ [CHR 0x22] @ ''config'' @ [CHR 0x22] @ '': {}'' @ [CHR 0x0A] @ ''      }'' @
    [CHR 0x0A] @ ''    ]'' @ [CHR 0x0A] @ ''  },'' @ [CHR 0x0A] @ ''  '' @ [CHR 0x22] @
    ''recommendations'' @ [CHR 0x22] @ '': ['' @ [CHR 0x22] @ ''Recommandation 1 (string)'' @
    [CHR 0x22] @ '', '' @ [CHR 0x22] @ ''Recommandation 2 (string)'' @ [CHR 0x22] @ ''],'' @
    [CHR 0x0A] @ ''  '' @ [CHR 0x22] @ ''explanation'' @ [CHR 0x22] @ '': '' @ [CHR 0x22] @
    ''Explication de haut niveau du dashboard g'' @ [CHR 0xC3, CHR 0xA9] @ ''n'' @
    [CHR 0xC3, CHR 0xA9] @ ''r'' @ [CHR 0xC3, CHR 0xA9] @ '' (string)'' @
    [CHR 0x22, CHR 0x0A] @ ''}'' @ [CHR 0x0A, CHR 0x0A] @ ''Voici la structure de l'' @
    [CHR 0x27] @ ''objet '' @ [CHR 0x22] @ ''config'' @ [CHR 0x22] @ '' pour chaque '' @
    [CHR 0x22] @ ''type'' @ [CHR 0x22] @ '' de bloc :'' @ [CHR 0x0A, CHR 0x0A] @ ''- Pour '' @
    [CHR 0x22] @ ''MetricBlock'' @ [CHR 0x22] @ '':'' @ [CHR 0x0A] @ ''  '' @ [CHR 0x22] @
    ''config'' @ [CHR 0x22] @ '': {'' @ [CHR 0x0A] @ ''    '' @ [CHR 0x22] @ ''value'' @
    [CHR 0x22] @ '': 123.45,'' @ [CHR 0x0A] @ ''    '' @ [CHR 0x22] @ ''previousValue'' @
    [CHR 0x22] @ '': 120.10,'' @ [CHR 0x0A] @ ''    '' @ [CHR 0x22] @ ''unit'' @ [CHR 0x22] @
    '': '' @ [CHR 0x22] @ ''%'' @ [CHR 0x22] @ '','' @ [CHR 0x0A] @ ''    '' @ [CHR 0x22] @
    ''precision'' @ [CHR 0x22] @ '': 2,'' @ [CHR 0x0A] @ ''    '' @ [CHR 0x22] @
    ''showChange'' @ [CHR 0x22] @ '': true,'' @ [CHR 0x0A] @ ''    '' @ [CHR 0x22] @
    ''thresholds'' @ [CHR 0x22] @ '': {'' @ [CHR 0x22] @ ''warning'' @ [CHR 0x22] @
    '': 80, '' @ [CHR 0x22] @ ''critical'' @ [CHR 0x22] @ '': 95},'' @ [CHR 0x0A] @ ''    '' @
    [CHR 0x22] @ ''inverse'' @ [CHR 0x22] @ '': false'' @ [CHR 0x0A] @ ''  }'' @
    [CHR 0x0A, CHR 0x0A] @ ''- Pour '' @ [CHR 0x22] @ ''LineChartBlock'' @ [CHR 0x22] @
    '' ou '' @ [CHR 0x22] @ ''BarChartBlock'' @ [CHR 0x22] @ '':'' @ [CHR 0x0A] @ ''  '' @
    [CHR 0x22] @ ''config'' @ [CHR 0x22] @ '': {'' @ [CHR 0x0A] @ ''    '' @ [CHR 0x22] @
    ''data'' @ [CHR 0x22] @ '': ['' @ [CHR 0x0A] @ ''      {'' @ [CHR 0x22] @ ''name'' @
    [CHR 0x22] @ '': '' @ [CHR 0x22] @ ''Jan'' @ [CHR 0x22] @ '', '' @ [CHR 0x22] @ ''value'' @
    [CHR 0x22] @ '': 30},'' @ [CHR 0x0A] @ ''      {'' @ [CHR 0x22] @ ''name'' @ [CHR 0x22] @
    '': '' @ [CHR 0x22] @ ''Fev'' @ [CHR 0x22] @ '', '' @ [CHR 0x22] @ ''value'' @ [CHR 0x22] @
    '': 45},'' @ [CHR 0x0A] @ ''      {'' @ [CHR 0x22] @ ''name'' @ [CHR 0x22] @ '': '' @
    [CHR 0x22] @ ''Mar'' @ [CHR 0x22] @ '', '' @ [CHR 0x22] @ ''value'' @ [CHR 0x22] @
    '': 60}'' @ [CHR 0x0A] @ ''    ],'' @ [CHR 0x0A] @ ''    '' @ [CHR 0x22] @ ''dataKey'' @
    [CHR 0x22] @ '': '' @ [CHR 0x22] @ ''value'' @ [CHR 0x22] @ '','' @ [CHR 0x0A] @ ''    '' @
    [CHR 0x22] @ ''categoryKey'' @ [CHR 0x22] @ '': '' @ [CHR 0x22] @ ''name'' @ [CHR 0x22] @
    '','' @ [CHR 0x0A] @ ''    '' @ [CHR 0x22] @ ''unit'' @ [CHR 0x22] @ '': '' @ [CHR 0x22] @
    ''ms'' @ [CHR 0x22, CHR 0x0A] @ ''  }'' @ [CHR 0x0A, CHR 0x0A] @ ''- Pour '' @ [CHR 0x22] @
    ''TableBlock'' @ [CHR 0x22] @ '':'' @ [CHR 0x0A] @ ''  '' @ [CHR 0x22] @ ''config'' @
    [CHR 0x22] @ '': {'' @ [CHR 0x0A] @ ''    '' @ [CHR 0x22] @ ''headers'' @ [CHR 0x22] @
    '': ['' @ [CHR 0x22] @ ''Nom du Service'' @ [CHR 0x22] @ '', '' @ [CHR 0x22] @ ''Statut'' @
    [CHR 0x22] @ '', '' @ [CHR 0x22] @ ''Latence (ms)'' @ [CHR 0x22] @ ''],'' @ [CHR 0x0A] @
    ''    '' @ [CHR 0x22] @ ''rows'' @ [CHR 0x22] @ '': ['' @ [CHR 0x0A] @ ''      ['' @
    [CHR 0x22] @ ''auth-service'' @ [CHR 0x22] @ '', '' @ [CHR 0x22] @ ''UP'' @ [CHR 0x22] @
    '', 54],'' @ [CHR 0x0A] @ ''      ['' @ [CHR 0x22] @ ''payment-service'' @ [CHR 0x22] @
    '', '' @ [CHR 0x22] @ ''DEGRADED'' @ [CHR 0x22] @ '', 210]'' @ [CHR 0x0A] @ ''    ]'' @
    [CHR 0x0A] @ ''  }'' @ [CHR 0x0A, CHR 0x0A] @ ''Analyse la demande utilisateur et les m'' @
    [CHR 0xC3, CHR 0xA9] @ ''triques fournies pour g'' @ [CHR 0xC3, CHR 0xA9] @ ''n'' @
    [CHR 0xC3, CHR 0xA9] @ ''rer la configuration JSON la plus pertinente possible.''"

definition prompts_opsAssistant :: string where
  \<comment> \<open>getSystemPrompt: prompts.opsAssistant\<close>
  "prompts_opsAssistant =
    ''Tu es un expert en infrastructure et supervision op'' @ [CHR 0xC3, CHR 0xA9] @
    ''rationnelle pour SupervIA.'' @ [CHR 0x0A, CHR 0x0A] @ ''Ton r'' @ [CHR 0xC3, CHR 0xB4] @
    ''le est de:'' @ [CHR 0x0A] @ ''1. Analyser les m'' @ [CHR 0xC3, CHR 0xA9] @
    ''triques syst'' @ [CHR 0xC3, CHR 0xA8] @ ''me et applications'' @ [CHR 0x0A] @
    ''2. Diagnostiquer les probl'' @ [CHR 0xC3, CHR 0xA8] @ ''mes de performance'' @
    [CHR 0x0A] @ ''3. Recommander des optimisations'' @ [CHR 0x0A] @ ''4. Sugg'' @
    [CHR 0xC3, CHR 0xA9] @ ''rer des r'' @ [CHR 0xC3, CHR 0xA8] @ ''gles d'' @ [CHR 0x27] @
    ''alertes pertinentes'' @ [CHR 0x0A] @ ''5. Aider '' @ [CHR 0xC3, CHR 0xA0] @
    '' la planification de capacit'' @ [CHR 0xC3, CHR 0xA9, CHR 0x0A] @
    ''6. Expliquer les m'' @ [CHR 0xC3, CHR 0xA9] @ ''triques complexes en termes simples'' @
    [CHR 0x0A, CHR 0x0A] @ ''Tu dois '' @ [CHR 0xC3, CHR 0xAA] @ ''tre pr'' @
    [CHR 0xC3, CHR 0xA9] @ ''cis, actionnable et toujours proposer des solutions concr'' @
    [CHR 0xC3, CHR 0xA8] @ ''tes.'' @ [CHR 0x0A] @ ''R'' @ [CHR 0xC3, CHR 0xA9] @
    ''ponds en fran'' @ [CHR 0xC3, CHR 0xA7] @ ''ais clair et technique quand appropri'' @
    [CHR 0xC3, CHR 0xA9] @ ''.'' @ [CHR 0x0A] @ ''Structure tes r'' @ [CHR 0xC3, CHR 0xA9] @
    ''ponses avec des sections: Analyse, Diagnostic, Recommandatio'' @ ''ns, Actions.'' @
    [CHR 0x0A, CHR 0x0A] @ ''Pour les m'' @ [CHR 0xC3, CHR 0xA9] @ ''triques, consid'' @
    [CHR 0xC3, CHR 0xA8] @ ''re toujours:'' @ [CHR 0x0A] @
    ''- Les seuils normaux vs anormaux'' @ [CHR 0x0A] @ ''- Les tendances temporelles'' @
    [CHR 0x0A] @ ''- L'' @ [CHR 0x27] @ ''impact business'' @ [CHR 0x0A] @ ''- La criticit'' @
    [CHR 0xC3, CHR 0xA9] @ '' des services affect'' @ [CHR 0xC3, CHR 0xA9] @ ''s''"

definition fallbacks_dashboard_content :: string where
  \<comment> \<open>getFallbackResponse: fallbacks.dashboard.content, the JSON.stringify of the object literal\<close>
  "fallbacks_dashboard_content =
    ''{'' @ [CHR 0x22] @ ''dashboard'' @ [CHR 0x22] @ '':{'' @ [CHR 0x22] @ ''title'' @
    [CHR 0x22] @ '':'' @ [CHR 0x22] @ ''Dashboard par d'' @ [CHR 0xC3, CHR 0xA9] @ ''faut'' @
    [CHR 0x22] @ '','' @ [CHR 0x22] @ ''description'' @ [CHR 0x22] @ '':'' @ [CHR 0x22] @
    ''Configuration g'' @ [CHR 0xC3, CHR 0xA9] @ ''n'' @ [CHR 0xC3, CHR 0xA9] @ ''r'' @
    [CHR 0xC3, CHR 0xA9] @ ''e en mode d'' @ [CHR 0xC3, CHR 0xA9] @ ''grad'' @
    [CHR 0xC3, CHR 0xA9, CHR 0x22] @ '','' @ [CHR 0x22] @ ''layout'' @ [CHR 0x22] @ '':'' @
    [CHR 0x22] @ ''grid'' @ [CHR 0x22] @ '','' @ [CHR 0x22] @ ''blocks'' @ [CHR 0x22] @
    '':[{'' @ [CHR 0x22] @ ''id'' @ [CHR 0x22] @ '':'' @ [CHR 0x22] @ ''default-metric'' @
    [CHR 0x22] @ '','' @ [CHR 0x22] @ ''type'' @ [CHR 0x22] @ '':'' @ [CHR 0x22] @ ''metric'' @
    [CHR 0x22] @ '','' @ [CHR 0x22] @ ''title'' @ [CHR 0x22] @ '':'' @ [CHR 0x22] @ ''M'' @
    [CHR 0xC3, CHR 0xA9] @ ''triques syst'' @ [CHR 0xC3, CHR 0xA8] @ ''me'' @ [CHR 0x22] @
    '','' @ [CHR 0x22] @ ''position'' @ [CHR 0x22] @ '':{'' @ [CHR 0x22] @ ''x'' @ [CHR 0x22] @
    '':0,'' @ [CHR 0x22] @ ''y'' @ [CHR 0x22] @ '':0,'' @ [CHR 0x22] @ ''w'' @ [CHR 0x22] @
    '':6,'' @ [CHR 0x22] @ ''h'' @ [CHR 0x22] @ '':3},'' @ [CHR 0x22] @ ''config'' @
    [CHR 0x22] @ '':{'' @ [CHR 0x22] @ ''metric'' @ [CHR 0x22] @ '':'' @ [CHR 0x22] @
    ''cpu_usage'' @ [CHR 0x22] @ ''},'' @ [CHR 0x22] @ ''datasource'' @ [CHR 0x22] @ '':'' @
    [CHR 0x22] @ ''prometheus'' @ [CHR 0x22] @ ''}]},'' @ [CHR 0x22] @ ''recommendations'' @
    [CHR 0x22] @ '':['' @ [CHR 0x22] @ ''V'' @ [CHR 0xC3, CHR 0xA9] @
    ''rifiez la configuration des m'' @ [CHR 0xC3, CHR 0xA9] @ ''triques'' @ [CHR 0x22] @
    ''],'' @ [CHR 0x22] @ ''explanation'' @ [CHR 0x22] @ '':'' @ [CHR 0x22] @ ''Dashboard g'' @
    [CHR 0xC3, CHR 0xA9] @ ''n'' @ [CHR 0xC3, CHR 0xA9] @ ''r'' @ [CHR 0xC3, CHR 0xA9] @
    '' en mode d'' @ [CHR 0xC3, CHR 0xA9] @ ''grad'' @ [CHR 0xC3, CHR 0xA9] @ '' suite '' @
    [CHR 0xC3, CHR 0xA0] @ '' une erreur API'' @ [CHR 0x22] @ ''}''"

definition fallbacks_opsAssistant_content :: string where
  \<comment> \<open>getFallbackResponse: fallbacks.opsAssistant.content\<close>
  "fallbacks_opsAssistant_content =
    ''Je rencontre actuellement des difficult'' @ [CHR 0xC3, CHR 0xA9] @
    ''s techniques. Veuillez v'' @ [CHR 0xC3, CHR 0xA9] @ ''rifier:'' @
    [CHR 0x0A, CHR 0x0A, CHR 0xE2, CHR 0x80, CHR 0xA2] @ '' L'' @
    [CHR 0x27, CHR 0xC3, CHR 0xA9] @ ''tat des services critiques'' @
    [CHR 0x0A, CHR 0xE2, CHR 0x80, CHR 0xA2] @ '' Les m'' @ [CHR 0xC3, CHR 0xA9] @
    ''triques de base (CPU, m'' @ [CHR 0xC3, CHR 0xA9] @ ''moire, stockage)'' @
    [CHR 0x0A, CHR 0xE2, CHR 0x80, CHR 0xA2] @ '' Les logs d'' @ [CHR 0x27] @ ''erreur r'' @
    [CHR 0xC3, CHR 0xA9] @ ''cents'' @ [CHR 0x0A, CHR 0x0A] @ ''Contactez l'' @
    [CHR 0x27, CHR 0xC3, CHR 0xA9] @ ''quipe technique si le probl'' @ [CHR 0xC3, CHR 0xA8] @
    ''me persiste.''"

definition fallbacks_chat_content :: string where
  \<comment> \<open>getFallbackResponse: fallbacks.chat.content\<close>
  "fallbacks_chat_content =
    ''Je suis d'' @ [CHR 0xC3, CHR 0xA9] @ ''sol'' @ [CHR 0xC3, CHR 0xA9] @
    '', mais je rencontre des difficult'' @ [CHR 0xC3, CHR 0xA9] @
    ''s techniques pour traiter votre demande. Essayez de reformul'' @
    ''er votre question ou contactez l'' @ [CHR 0x27, CHR 0xC3, CHR 0xA9] @
    ''quipe technique si le probl'' @ [CHR 0xC3, CHR 0xA8] @ ''me persiste.''"

definition fallbacks_quick_status_content :: string where
  \<comment> \<open>getFallbackResponse: fallbacks[quick-status].content\<close>
  "fallbacks_quick_status_content =
    ''Statut syst'' @ [CHR 0xC3, CHR 0xA8] @ ''me: Indisponible. Impossible d'' @ [CHR 0x27] @
    ''acc'' @ [CHR 0xC3, CHR 0xA9] @ ''der aux m'' @ [CHR 0xC3, CHR 0xA9] @
    ''triques en temps r'' @ [CHR 0xC3, CHR 0xA9] @ ''el. Veuillez v'' @ [CHR 0xC3, CHR 0xA9] @
    ''rifier manuellement l'' @ [CHR 0x27, CHR 0xC3, CHR 0xA9] @ ''tat des services ou r'' @
    [CHR 0xC3, CHR 0xA9] @ ''essayer ult'' @ [CHR 0xC3, CHR 0xA9] @ ''rieurement.''"

definition fallbacks_performance_insights_content :: string where
  \<comment> \<open>getFallbackResponse: fallbacks[performance-insights].content\<close>
  "fallbacks_performance_insights_content =
    ''Analyse de performance indisponible. Le service de m'' @ [CHR 0xC3, CHR 0xA9] @
    ''triques semble inaccessible. V'' @ [CHR 0xC3, CHR 0xA9] @ ''rifiez l'' @
    [CHR 0x27, CHR 0xC3, CHR 0xA9] @ ''tat des services et les connexions r'' @
    [CHR 0xC3, CHR 0xA9] @ ''seau avant de r'' @ [CHR 0xC3, CHR 0xA9] @ ''essayer.''"

definition msg_only_ai_keys :: string where
  \<comment> \<open>deleteKey: the 400 answer\<close>
  "msg_only_ai_keys =
    ''Seules les cl'' @ [CHR 0xC3, CHR 0xA9] @ ''s IA peuvent '' @ [CHR 0xC3, CHR 0xAA] @
    ''tre supprim'' @ [CHR 0xC3, CHR 0xA9] @ ''es via cette API''"

definition msg_key_deleted :: string where
  \<comment> \<open>deleteKey: the 200 answer\<close>
  "msg_key_deleted =
    ''Cl'' @ [CHR 0xC3, CHR 0xA9] @ '' supprim'' @ [CHR 0xC3, CHR 0xA9] @ ''e avec succ'' @
    [CHR 0xC3, CHR 0xA8] @ ''s''"

definition msg_key_not_found :: string where
  \<comment> \<open>deleteKey: the 404 answer\<close>
  "msg_key_not_found =
    ''Cl'' @ [CHR 0xC3, CHR 0xA9] @ '' non trouv'' @ [CHR 0xC3, CHR 0xA9] @ ''e''"



section \<open>The response cache (\<^verbatim>\<open>src/config/redis.js\<close>)\<close>

subsection \<open>String tests\<close>

fun startsWith :: "string \<Rightarrow> string \<Rightarrow> bool" where
  \<comment> \<open>\<^verbatim>\<open>s.startsWith(p)\<close>\<close>
  "startsWith s [] = True"
| "startsWith [] (p # ps) = False"
| "startsWith (c # cs) (p # ps) = (c = p \<and> startsWith cs ps)"

fun String_includes :: "string \<Rightarrow> string \<Rightarrow> bool" where
  \<comment> \<open>\<^verbatim>\<open>s.includes(p)\<close>\<close>
  "String_includes [] p = (p = [])"
| "String_includes (c # cs) p = (startsWith (c # cs) p \<or> String_includes cs p)"

subsection \<open>The regular expressions that \<^verbatim>\<open>keys\<close> builds\<close>

text \<open>
  \<^verbatim>\<open>keys(pattern)\<close> tests every key with \<^verbatim>\<open>new RegExp(pattern.replace('*', '.*'))\<close>.
  \<^verbatim>\<open>String.prototype.replace\<close> with a string as its first argument rewrites the first
  occurrence only. The expressions modelled are those whose source is a sequence of
  ordinary characters and \<^verbatim>\<open>.*\<close> groups, which covers the one pattern the service
  passes itself, \<^verbatim>\<open>'ai:*'\<close>. \<^verbatim>\<open>RegExp.prototype.test\<close> searches: the expression is not
  anchored, so a match may start at any position of the key. The dot does not match
  a line feed or a carriage return. In JavaScript it does not match U+2028 and U+2029
  either, which the model takes for ordinary characters; for \<^verbatim>\<open>ai:.*\<close> this makes no
  difference, since the group at the end also matches the empty string.
\<close>

fun replace_first_star :: "string \<Rightarrow> string" where
  \<comment> \<open>\<^verbatim>\<open>pattern.replace('*', '.*')\<close>\<close>
  "replace_first_star [] = []"
| "replace_first_star (c # cs) =
     (if c = CHR ''*'' then ''.*'' @ cs else c # replace_first_star cs)"

datatype regex_item = RChar char | RDotStar

fun RegExp :: "string \<Rightarrow> regex_item list" where
  "RegExp [] = []"
| "RegExp [c] = [RChar c]"
| "RegExp (c # d # cs) =
     (if c = CHR ''.'' \<and> d = CHR ''*'' then RDotStar # RegExp cs else RChar c # RegExp (d # cs))"

definition line_terminator :: "char \<Rightarrow> bool" where
  "line_terminator c = (c = CHR 0x0A \<or> c = CHR 0x0D)"

fun match_here :: "regex_item list \<Rightarrow> string \<Rightarrow> bool" where
  "match_here [] s = True"
| "match_here (RChar c # r) [] = False"
| "match_here (RChar c # r) (d # s) = (c = d \<and> match_here r s)"
| "match_here (RDotStar # r) [] = match_here r []"
| "match_here (RDotStar # r) (d # s) =
     (match_here r (d # s) \<or> (\<not> line_terminator d \<and> match_here (RDotStar # r) s))"

fun regex_test :: "regex_item list \<Rightarrow> string \<Rightarrow> bool" where
  \<comment> \<open>\<^verbatim>\<open>regex.test(key)\<close>: a match starting at some position\<close>
  "regex_test r [] = match_here r []"
| "regex_test r (d # s) = (match_here r (d # s) \<or> regex_test r s)"

subsection \<open>\<^verbatim>\<open>redisClient\<close>: the simulated client over \<^verbatim>\<open>memoryCache\<close>\<close>

text \<open>
  \<^verbatim>\<open>memoryCache\<close> is a JavaScript \<^verbatim>\<open>Map\<close>: keys are unique and keep their insertion
  order, which is the order \<^verbatim>\<open>keys()\<close> iterates in. It is an association list here;
  \<^const>\<open>AList.update\<close> overwrites in place or appends, as \<^verbatim>\<open>Map.prototype.set\<close> does.

  \<^verbatim>\<open>aiCache.set\<close> stores \<^verbatim>\<open>JSON.stringify(data)\<close> and \<^verbatim>\<open>aiCache.get\<close> returns
  \<^verbatim>\<open>JSON.parse\<close> of the stored text. The data are plain JSON values (the results of
  \<^verbatim>\<open>callOpenAI\<close>), on which the two functions are inverse, and the stored text is never
  the empty string; the model keeps the datum itself.
\<close>

type_synonym 'v memoryCache = "(string \<times> 'v) list"

definition redisClient_get :: "'v memoryCache \<Rightarrow> string \<Rightarrow> 'v option" where
  "redisClient_get memoryCache key = map_of memoryCache key"

definition redisClient_setEx :: "string \<Rightarrow> nat \<Rightarrow> 'v \<Rightarrow> 'v memoryCache \<Rightarrow> 'v memoryCache" where
  \<comment> \<open>\<^verbatim>\<open>setEx: async (key, ttl, value) => { memoryCache.set(key, value); return 'OK'; }\<close>\<close>
  "redisClient_setEx key ttl v memoryCache = AList.update key v memoryCache"

definition Map_delete :: "string \<Rightarrow> 'v memoryCache \<Rightarrow> bool \<times> 'v memoryCache" where
  \<comment> \<open>\<^verbatim>\<open>memoryCache.delete(k)\<close>: whether the key was present, and the map without it\<close>
  "Map_delete k memoryCache =
     (case map_of memoryCache k of
        None \<Rightarrow> (False, memoryCache)
      | Some _ \<Rightarrow> (True, AList.delete k memoryCache))"

definition redisClient_del :: "string \<Rightarrow> 'v memoryCache \<Rightarrow> nat \<times> 'v memoryCache" where
  \<comment> \<open>\<^verbatim>\<open>del(key)\<close> with a single key\<close>
  "redisClient_del key memoryCache =
     (case Map_delete key memoryCache of (present, m) \<Rightarrow> (if present then 1 else 0, m))"

fun redisClient_del_array :: "string list \<Rightarrow> 'v memoryCache \<Rightarrow> nat \<times> 'v memoryCache" where
  \<comment> \<open>\<^verbatim>\<open>del(key)\<close> with an array: the loop \<^verbatim>\<open>for (const k of key)\<close>, counting the deletions\<close>
  "redisClient_del_array [] memoryCache = (0, memoryCache)"
| "redisClient_del_array (k # ks) memoryCache =
     (case Map_delete k memoryCache of
        (present, m) \<Rightarrow>
          (case redisClient_del_array ks m of
             (count, m') \<Rightarrow> ((if present then 1 else 0) + count, m')))"

definition redisClient_keys :: "string \<Rightarrow> 'v memoryCache \<Rightarrow> string list" where
  "redisClient_keys pattern memoryCache =
     (let regex = RegExp (replace_first_star pattern)
      in filter (regex_test regex) (map fst memoryCache))"

definition redisClient_ttl :: "string \<Rightarrow> int" where
  \<comment> \<open>\<^verbatim>\<open>ttl: async () => { return -1; }\<close>, commented "no expiry in memory mode"\<close>
  "redisClient_ttl key = - 1"

subsection \<open>\<^verbatim>\<open>aiCache\<close>\<close>

definition generateCacheKey :: "(string \<Rightarrow> string) \<Rightarrow> string \<Rightarrow> string \<Rightarrow> string" where
  \<comment> \<open>the first argument is MD5 in hexadecimal; \<^verbatim>\<open>callOpenAI\<close> always passes a string
      as \<^verbatim>\<open>prompt\<close>, so \<^verbatim>\<open>promptStr\<close> is that string\<close>
  "generateCacheKey md5 prompt agentType = ''ai:'' @ agentType @ '':'' @ md5 prompt"

definition aiCache_get :: "'v memoryCache \<Rightarrow> string \<Rightarrow> 'v option" where
  "aiCache_get memoryCache key = redisClient_get memoryCache key"

definition aiCache_set :: "string \<Rightarrow> 'v \<Rightarrow> nat option \<Rightarrow> 'v memoryCache \<Rightarrow> bool \<times> 'v memoryCache" where
  \<comment> \<open>\<^verbatim>\<open>ttlSeconds = 3600\<close> when the caller passes none\<close>
  "aiCache_set key data ttlSeconds memoryCache =
     (let ttl = (case ttlSeconds of None \<Rightarrow> 3600 | Some t \<Rightarrow> t)
      in (True, redisClient_setEx key ttl data memoryCache))"

definition aiCache_del :: "string \<Rightarrow> 'v memoryCache \<Rightarrow> bool \<times> 'v memoryCache" where
  "aiCache_del key memoryCache = (True, snd (redisClient_del key memoryCache))"

definition aiCache_flush :: "'v memoryCache \<Rightarrow> bool \<times> 'v memoryCache" where
  "aiCache_flush memoryCache =
     (let keys = redisClient_keys ''ai:*'' memoryCache
      in if length keys > 0 then (True, snd (redisClient_del_array keys memoryCache))
         else (True, memoryCache))"

subsection \<open>Simulated time\<close>





subsection \<open>The administration endpoints (\<^verbatim>\<open>src/controllers/cache.controller.js\<close>)\<close>

text \<open>
  Both routes sit behind \<^verbatim>\<open>authMiddleware\<close> and \<^verbatim>\<open>requireRole(['admin'])\<close>, so
  \<^verbatim>\<open>req.user\<close> is defined when a controller runs.
\<close>

record http_reply =
  http_status :: nat
  http_success :: bool
  http_message :: string

definition deleteKey :: "string \<Rightarrow> 'v memoryCache \<Rightarrow> http_reply \<times> 'v memoryCache" where
  "deleteKey key memoryCache =
     (if \<not> startsWith key ''ai:''
      then (\<lparr>http_status = 400, http_success = False, http_message = msg_only_ai_keys\<rparr>, memoryCache)
      else (case redisClient_del key memoryCache of
              (deleted, m) \<Rightarrow>
                if deleted > 0
                then (\<lparr>http_status = 200, http_success = True, http_message = msg_key_deleted\<rparr>, m)
                else (\<lparr>http_status = 404, http_success = False, http_message = msg_key_not_found\<rparr>, m)))"



section \<open>Messages, answers and the OpenAI endpoint\<close>

text \<open>
  JavaScript objects are records whose optional properties are \<^typ>\<open>'a option\<close> fields.
  Several objects of the source share property names, so every record has a prefix:
  \<^verbatim>\<open>tc_\<close> a tool call of an answer (\<^verbatim>\<open>id\<close>, \<^verbatim>\<open>function.name\<close>, \<^verbatim>\<open>function.arguments\<close>),
  \<^verbatim>\<open>m_\<close> a message of a history or of a prompt,
  \<^verbatim>\<open>r_\<close> the object \<^verbatim>\<open>callOpenAI\<close> returns (\<^verbatim>\<open>responseMessage\<close> in \<^verbatim>\<open>chat\<close>),
  \<^verbatim>\<open>ar_\<close>, \<^verbatim>\<open>ch_\<close>, \<^verbatim>\<open>am_\<close> the completion object of the OpenAI SDK, a choice and its message.
\<close>

record tool_call =
  tc_id :: string
  tc_name :: string
  tc_arguments :: string

record message =
  m_role :: string
  m_content :: "string option"
  m_tool_calls :: "tool_call list option"
  m_tool_call_id :: "string option"
  m_name :: "string option"

record api_message =
  am_content :: "string option"
  am_tool_calls :: "tool_call list option"

record api_choice =
  ch_message :: "api_message option"

record api_response =
  ar_choices :: "api_choice list option"
  ar_model :: "string option"
  ar_usage :: "nat option"  \<comment> \<open>\<^verbatim>\<open>response.usage\<close>, by its \<^verbatim>\<open>total_tokens\<close>\<close>

record ai_response =
  r_content :: "string option"
  r_tool_calls :: "tool_call list option"
  r_cached :: "bool option"
  r_fallback :: "bool option"
  r_choices :: "api_choice list option"
  r_model :: "string option"
  r_usage :: "nat option"
  r_timestamp :: "string option"
  r_agentType :: "string option"

datatype js_error = Error (error_code: "string option") (error_message: string)

datatype api_outcome = Resolved "api_response option" | Rejected js_error

record call_options =
  opt_model :: "string option"
  opt_maxTokens :: "nat option"
  opt_responseFormat :: bool
  opt_tools :: bool
  opt_tool_choice :: "string option"
  opt_cacheTTL :: "nat option"

record api_request =
  req_model :: string
  req_messages :: "message list"
  req_max_tokens :: nat
  req_response_format :: bool
  req_tools :: bool
  req_tool_choice :: "string option"

text \<open>
  The temperature is a floating-point number that is handed to the endpoint and read
  nowhere else; the records leave it out. \<^verbatim>\<open>tools\<close> is the constant array of
  \<^verbatim>\<open>tool.service.js\<close>, so a request only records whether it is attached.
\<close>

record 'w OpenAIService =
  client :: "'w \<Rightarrow> api_request \<Rightarrow> api_outcome \<times> 'w"
  svc_model :: string
  svc_maxTokens :: nat
  useCache :: bool

record 'w platform =
  md5 :: "string \<Rightarrow> string"
  JSON_stringify :: "message list \<Rightarrow> string"
  Date_toISOString :: "'w \<Rightarrow> string"

datatype prompt = PromptString string | PromptMessages "message list" | PromptOther

section \<open>\<^verbatim>\<open>src/services/openai.service.js\<close>\<close>

definition msg_usage_undefined :: string where
  \<comment> \<open>the TypeError of \<^verbatim>\<open>response.usage.total_tokens\<close> when \<^verbatim>\<open>response.usage\<close> is undefined\<close>
  "msg_usage_undefined =
     ''Cannot read properties of undefined (reading '' @ [CHR 0x27] @ ''total_tokens'' @ [CHR 0x27] @ '')''"

text \<open>
  \<^verbatim>\<open>prompts\<close>, \<^verbatim>\<open>fallbacks\<close> and \<^verbatim>\<open>availableTools\<close> are object literals read with a computed
  name, \<^verbatim>\<open>o[name]\<close>. Such a read finds the properties the literal lists and, failing
  that, the members every object inherits from \<^verbatim>\<open>Object.prototype\<close>. The inherited
  members are functions, except \<^verbatim>\<open>__proto__\<close>, which reads as \<^verbatim>\<open>Object.prototype\<close>
  itself; all of them are truthy, none is a string, and none has a property
  \<^verbatim>\<open>content\<close>, \<^verbatim>\<open>tool_calls\<close>, \<^verbatim>\<open>cached\<close> or \<^verbatim>\<open>fallback\<close>.
\<close>

definition Object_prototype_names :: "string list" where
  \<comment> \<open>\<^verbatim>\<open>Object.getOwnPropertyNames(Object.prototype)\<close>\<close>
  "Object_prototype_names =
     [''constructor'', ''__defineGetter__'', ''__defineSetter__'', ''hasOwnProperty'',
      ''__lookupGetter__'', ''__lookupSetter__'', ''isPrototypeOf'', ''propertyIsEnumerable'',
      ''toString'', ''valueOf'', ''__proto__'', ''toLocaleString'']"

definition prompts :: "string \<Rightarrow> string option option" where
  \<comment> \<open>\<^verbatim>\<open>prompts[agentType]\<close>: \<^const>\<open>None\<close> when the read gives \<^verbatim>\<open>undefined\<close>,
      \<^term>\<open>Some None\<close> when it gives an inherited member, which is not a text\<close>
  "prompts agentType =
     (if agentType = ''dashboard'' then Some (Some prompts_dashboard)
      else if agentType = ''opsAssistant'' then Some (Some prompts_opsAssistant)
      else if agentType \<in> set Object_prototype_names then Some None
      else None)"

definition getSystemPrompt :: "string \<Rightarrow> string option" where
  \<comment> \<open>\<^verbatim>\<open>prompts[agentType] || prompts.opsAssistant\<close>; \<^const>\<open>None\<close> when the value is not a
      text\<close>
  "getSystemPrompt agentType =
     (case prompts agentType of Some p \<Rightarrow> p | None \<Rightarrow> Some prompts_opsAssistant)"

definition fallback_object :: "string \<Rightarrow> ai_response" where
  \<comment> \<open>the object literal \<^verbatim>\<open>{ content: ..., fallback: true }\<close>\<close>
  "fallback_object text =
     \<lparr>r_content = Some text, r_tool_calls = None, r_cached = None, r_fallback = Some True,
      r_choices = None, r_model = None, r_usage = None, r_timestamp = None,
      r_agentType = None\<rparr>"

definition inherited_member :: ai_response where
  \<comment> \<open>a member of \<^verbatim>\<open>Object.prototype\<close> read as an answer: every property that the
      service reads of an answer is \<^verbatim>\<open>undefined\<close>\<close>
  "inherited_member =
     \<lparr>r_content = None, r_tool_calls = None, r_cached = None, r_fallback = None,
      r_choices = None, r_model = None, r_usage = None, r_timestamp = None,
      r_agentType = None\<rparr>"

definition fallbacks :: "string \<Rightarrow> ai_response option" where
  \<comment> \<open>\<^verbatim>\<open>fallbacks[agentType]\<close>\<close>
  "fallbacks agentType =
     (if agentType = ''dashboard'' then Some (fallback_object fallbacks_dashboard_content)
      else if agentType = ''opsAssistant'' then Some (fallback_object fallbacks_opsAssistant_content)
      else if agentType = ''chat'' then Some (fallback_object fallbacks_chat_content)
      else if agentType = ''quick-status'' then Some (fallback_object fallbacks_quick_status_content)
      else if agentType = ''performance-insights''
        then Some (fallback_object fallbacks_performance_insights_content)
      else if agentType \<in> set Object_prototype_names then Some inherited_member
      else None)"

definition getFallbackResponse :: "string \<Rightarrow> ai_response" where
  "getFallbackResponse agentType =
     (case fallbacks agentType of
        Some fallbackResponse \<Rightarrow> fallbackResponse
      | None \<Rightarrow>
          if String_includes agentType ''chat'' then fallback_object fallbacks_chat_content
          else if String_includes agentType ''dashboard''
            then fallback_object fallbacks_dashboard_content
          else fallback_object fallbacks_opsAssistant_content)"

definition callOpenAI_catch :: "string \<Rightarrow> js_error \<Rightarrow> js_error + ai_response" where
  \<comment> \<open>the \<^verbatim>\<open>catch (error)\<close> block of \<^verbatim>\<open>callOpenAI\<close>\<close>
  "callOpenAI_catch agentType error =
     (if error_code error = Some ''rate_limit_exceeded'' then Inl (Error None msg_rate_limit)
      else if error_code error = Some ''insufficient_quota'' then Inl (Error None msg_quota)
      else if error_code error = Some ''invalid_request_error''
        then Inl (Error None (msg_invalid_request @ error_message error))
      else Inr (getFallbackResponse agentType))"

definition cacheKey_of :: "'w platform \<Rightarrow> prompt \<Rightarrow> string \<Rightarrow> string option" where
  \<comment> \<open>the first statement of the \<^verbatim>\<open>try\<close> block; \<^const>\<open>None\<close> is the throw of
      "Format de prompt invalide"\<close>
  "cacheKey_of pf prompt agentType =
     (case prompt of
        PromptString s \<Rightarrow> Some (generateCacheKey (md5 pf) s agentType)
      | PromptMessages ms \<Rightarrow> Some (generateCacheKey (md5 pf) (JSON_stringify pf ms) agentType)
      | PromptOther \<Rightarrow> None)"

definition system_message :: "string \<Rightarrow> message" where
  "system_message text =
     \<lparr>m_role = ''system'', m_content = Some text, m_tool_calls = None,
      m_tool_call_id = None, m_name = None\<rparr>"

definition user_message :: "string \<Rightarrow> message" where
  "user_message text =
     \<lparr>m_role = ''user'', m_content = Some text, m_tool_calls = None,
      m_tool_call_id = None, m_name = None\<rparr>"

definition messages_of :: "prompt \<Rightarrow> string \<Rightarrow> message list option" where
  "messages_of prompt agentType =
     (case prompt of
        PromptString s \<Rightarrow>
          Some [\<lparr>m_role = ''system'', m_content = getSystemPrompt agentType, m_tool_calls = None,
                 m_tool_call_id = None, m_name = None\<rparr>,
                user_message s]
      | PromptMessages ms \<Rightarrow> Some ms
      | PromptOther \<Rightarrow> None)"

definition truthy_nat :: "nat option \<Rightarrow> nat \<Rightarrow> nat" where
  \<comment> \<open>\<^verbatim>\<open>x || d\<close> on numbers: \<^verbatim>\<open>undefined\<close> and \<^verbatim>\<open>0\<close> are falsy\<close>
  "truthy_nat x d = (case x of None \<Rightarrow> d | Some n \<Rightarrow> if n = 0 then d else n)"

definition truthy_string :: "string option \<Rightarrow> string \<Rightarrow> string" where
  \<comment> \<open>\<^verbatim>\<open>x || d\<close> on strings: \<^verbatim>\<open>undefined\<close> and the empty string are falsy\<close>
  "truthy_string x d = (case x of None \<Rightarrow> d | Some s \<Rightarrow> if s = [] then d else s)"

definition requestConfig :: "'w OpenAIService \<Rightarrow> message list \<Rightarrow> call_options \<Rightarrow> api_request" where
  "requestConfig this messages options =
     \<lparr>req_model = truthy_string (opt_model options) (svc_model this),
      req_messages = messages,
      req_max_tokens = truthy_nat (opt_maxTokens options) (svc_maxTokens this),
      req_response_format = opt_responseFormat options,
      req_tools = opt_tools options,
      req_tool_choice =
        (if opt_tools options
         then (case opt_tool_choice options of
                 None \<Rightarrow> None
               | Some choice \<Rightarrow> if choice = [] then None else Some choice)
         else None)\<rparr>"

definition first_message :: "api_response option \<Rightarrow> (api_response \<times> api_message) option" where
  \<comment> \<open>\<^const>\<open>None\<close> when \<^verbatim>\<open>!response || !response.choices || !response.choices[0] ||
      !response.choices[0].message\<close>\<close>
  "first_message response =
     (case response of
        None \<Rightarrow> None
      | Some resp \<Rightarrow>
          (case ar_choices resp of
             None \<Rightarrow> None
           | Some [] \<Rightarrow> None
           | Some (c # _) \<Rightarrow>
               (case ch_message c of None \<Rightarrow> None | Some msg \<Rightarrow> Some (resp, msg))))"

definition callOpenAI ::
  "'w OpenAIService \<Rightarrow> 'w platform \<Rightarrow> prompt \<Rightarrow> string \<Rightarrow> call_options \<Rightarrow>
   'w \<times> ai_response memoryCache \<Rightarrow> (js_error + ai_response) \<times> ('w \<times> ai_response memoryCache)" where
  "callOpenAI this pf prompt agentType options st =
     (case st of (w, memoryCache) \<Rightarrow>
        (case cacheKey_of pf prompt agentType of
           None \<Rightarrow> (callOpenAI_catch agentType (Error None msg_invalid_prompt), st)
         | Some cacheKey \<Rightarrow>
             (case (if useCache this then aiCache_get memoryCache cacheKey else None) of
                Some hit \<Rightarrow> (Inr hit, st)
              | None \<Rightarrow>
                  (case messages_of prompt agentType of
                     None \<Rightarrow> (callOpenAI_catch agentType (Error None msg_invalid_prompt), st)
                   | Some messages \<Rightarrow>
                       (case client this w (requestConfig this messages options) of
                          (Rejected e, w') \<Rightarrow> (callOpenAI_catch agentType e, (w', memoryCache))
                        | (Resolved response, w') \<Rightarrow>
                            (case first_message response of
                               None \<Rightarrow>
                                 (callOpenAI_catch agentType (Error None msg_invalid_response),
                                  (w', memoryCache))
                             | Some (resp, msg) \<Rightarrow>
                                 (let result =
                                        \<lparr>r_content = am_content msg, r_tool_calls = None,
                                         r_cached = None, r_fallback = None,
                                         r_choices = ar_choices resp, r_model = ar_model resp,
                                         r_usage = ar_usage resp,
                                         r_timestamp = Some (Date_toISOString pf w'),
                                         r_agentType = Some agentType\<rparr>;
                                      ttl = truthy_nat (opt_cacheTTL options) 3600;
                                      memoryCache' =
                                        (if useCache this
                                         then snd (aiCache_set cacheKey result (Some ttl) memoryCache)
                                         else memoryCache)
                                  in case ar_usage resp of
                                       None \<Rightarrow>
                                         (callOpenAI_catch agentType (Error None msg_usage_undefined),
                                          (w', memoryCache'))
                                     | Some _ \<Rightarrow> (Inr result, (w', memoryCache')))))))))"


section \<open>\<^verbatim>\<open>src/controllers/ops-assistant.controller.js\<close>: the chat turn\<close>

text \<open>
  \<^verbatim>\<open>chat\<close> reaches the reasoning engine only through \<^verbatim>\<open>openAIService.callOpenAI\<close>, so the
  model takes that function as a parameter: an engine maps a state (whatever the
  engine depends on and changes), the prompt, the agent type and the options to
  either a thrown error or an answer, with the next state. The service's own
  \<^const>\<open>callOpenAI\<close> is one such engine, a test double is another.

  A tool executor is an \<^verbatim>\<open>async\<close> function of the parsed arguments. Its outcome for
  given arguments is given by the table of the turn, which lists the properties of
  the object literal \<^verbatim>\<open>availableTools\<close>: it returns a value, a string or something
  else (kept by its \<^verbatim>\<open>JSON.stringify\<close> text), or throws an error with a message.

  \<^verbatim>\<open>availableTools[functionName]\<close> also finds the members inherited from
  \<^verbatim>\<open>Object.prototype\<close>, and the loop calls what it finds as \<^verbatim>\<open>functionToCall(functionArgs)\<close>,
  without a receiver. What such a call does is fixed by the language, up to the
  wording of error messages; the runtime record holds what depends on the argument
  text and on the JavaScript engine.
\<close>

type_synonym 's engine =
  "'s \<Rightarrow> message list \<Rightarrow> string \<Rightarrow> call_options \<Rightarrow> (js_error + ai_response) \<times> 's"

datatype tool_output = OutString string | OutOther string

datatype tool_outcome = Returns tool_output | Throws string

type_synonym tool_table = "string \<Rightarrow> (string \<Rightarrow> tool_outcome) option"

record runtime =
  JSON_parse_error :: "string \<Rightarrow> string option"
    \<comment> \<open>the message of the error that \<^verbatim>\<open>JSON.parse(text)\<close> throws, if it throws\<close>
  parses_to_object :: "string \<Rightarrow> bool"
    \<comment> \<open>whether \<^verbatim>\<open>JSON.parse(text)\<close> is an object or an array\<close>
  stringify_Object :: "string \<Rightarrow> string"
    \<comment> \<open>\<^verbatim>\<open>JSON.stringify(Object(JSON.parse(text)))\<close>\<close>
  TypeError_message :: "string \<Rightarrow> string"
    \<comment> \<open>the message of the \<^verbatim>\<open>TypeError\<close> that calling the named member of
        \<^verbatim>\<open>Object.prototype\<close> without a receiver throws\<close>

definition Object_prototype :: "runtime \<Rightarrow> string \<Rightarrow> (string \<Rightarrow> tool_outcome) option" where
  \<comment> \<open>the members of \<^verbatim>\<open>Object.prototype\<close> as \<^verbatim>\<open>functionToCall\<close>, the argument being the text
      that \<^verbatim>\<open>JSON.parse\<close> has accepted. \<^verbatim>\<open>Object(value)\<close> returns the value as an object;
      \<^verbatim>\<open>toString\<close> without a receiver returns \<^verbatim>\<open>[object Undefined]\<close>; \<^verbatim>\<open>isPrototypeOf\<close>
      returns \<^verbatim>\<open>false\<close> for a value that is not an object before it looks at its receiver;
      every other member converts its receiver to an object first, which throws a
      \<^verbatim>\<open>TypeError\<close>; \<^verbatim>\<open>__proto__\<close> is not a function, and calling it throws a
      \<^verbatim>\<open>TypeError\<close>\<close>
  "Object_prototype rt functionName =
     (if functionName = ''constructor''
        then Some (\<lambda>args. Returns (OutOther (stringify_Object rt args)))
      else if functionName = ''toString''
        then Some (\<lambda>args. Returns (OutString ''[object Undefined]''))
      else if functionName = ''isPrototypeOf''
        then Some (\<lambda>args. if parses_to_object rt args
                           then Throws (TypeError_message rt functionName)
                           else Returns (OutOther ''false''))
      else if functionName \<in> set Object_prototype_names
        then Some (\<lambda>args. Throws (TypeError_message rt functionName))
      else None)"

definition property_of :: "runtime \<Rightarrow> tool_table \<Rightarrow> string \<Rightarrow> (string \<Rightarrow> tool_outcome) option" where
  \<comment> \<open>\<^verbatim>\<open>availableTools[functionName]\<close>: a property of the literal, or else an inherited
      member\<close>
  "property_of rt availableTools functionName =
     (case availableTools functionName of
        Some executor \<Rightarrow> Some executor
      | None \<Rightarrow> Object_prototype rt functionName)"

definition buildChatPrompt :: "message list \<Rightarrow> message list" where
  "buildChatPrompt history = system_message systemPrompt_content # history"

definition chat_options :: call_options where
  \<comment> \<open>\<^verbatim>\<open>{ temperature: 0.1, tools: tools, toolChoice: 'auto' }\<close>: the object has a property
      \<^verbatim>\<open>toolChoice\<close> and none called \<^verbatim>\<open>tool_choice\<close>\<close>
  "chat_options =
     \<lparr>opt_model = None, opt_maxTokens = None, opt_responseFormat = False, opt_tools = True,
      opt_tool_choice = None, opt_cacheTTL = None\<rparr>"

definition maxToolCalls :: nat where
  "maxToolCalls = 5"

definition assistant_tool_request :: "tool_call list \<Rightarrow> message" where
  \<comment> \<open>\<^verbatim>\<open>{ role: 'assistant', tool_calls: responseMessage.tool_calls }\<close>\<close>
  "assistant_tool_request calls =
     \<lparr>m_role = ''assistant'', m_content = None, m_tool_calls = Some calls,
      m_tool_call_id = None, m_name = None\<rparr>"

definition assistant_message :: "string \<Rightarrow> message" where
  \<comment> \<open>\<^verbatim>\<open>{ role: 'assistant', content: responseMessage.content }\<close>\<close>
  "assistant_message text =
     \<lparr>m_role = ''assistant'', m_content = Some text, m_tool_calls = None,
      m_tool_call_id = None, m_name = None\<rparr>"

definition tool_message :: "string \<Rightarrow> string \<Rightarrow> string \<Rightarrow> message" where
  \<comment> \<open>\<^verbatim>\<open>{ tool_call_id: toolCall.id, role: 'tool', name: functionName, content: ... }\<close>\<close>
  "tool_message call_id functionName text =
     \<lparr>m_role = ''tool'', m_content = Some text, m_tool_calls = None,
      m_tool_call_id = Some call_id, m_name = Some functionName\<rparr>"

definition output_text :: "tool_output \<Rightarrow> string" where
  \<comment> \<open>\<^verbatim>\<open>typeof output === 'string' ? output : JSON.stringify(output)\<close>\<close>
  "output_text out = (case out of OutString s \<Rightarrow> s | OutOther json \<Rightarrow> json)"

definition run_tool :: "runtime \<Rightarrow> tool_table \<Rightarrow> tool_call \<Rightarrow> message" where
  \<comment> \<open>the body of \<^verbatim>\<open>responseMessage.tool_calls.map(async (toolCall) => ...)\<close>\<close>
  "run_tool rt availableTools toolCall =
     (let functionName = tc_name toolCall
      in case property_of rt availableTools functionName of
           Some functionToCall \<Rightarrow>
             (case JSON_parse_error rt (tc_arguments toolCall) of
                Some msg \<Rightarrow> tool_message (tc_id toolCall) functionName (msg_tool_error @ msg)
              | None \<Rightarrow>
                  (case functionToCall (tc_arguments toolCall) of
                     Returns out \<Rightarrow> tool_message (tc_id toolCall) functionName (output_text out)
                   | Throws msg \<Rightarrow>
                       tool_message (tc_id toolCall) functionName (msg_tool_error @ msg)))
         | None \<Rightarrow>
             tool_message (tc_id toolCall) functionName
               (msg_tool_missing_pre @ functionName @ msg_tool_missing_post))"

function tool_loop ::
  "runtime \<Rightarrow> 's engine \<Rightarrow> tool_table \<Rightarrow> string \<Rightarrow> nat \<Rightarrow> message list \<Rightarrow>
   ai_response \<Rightarrow> 's \<Rightarrow> (js_error + ai_response \<times> nat) \<times> message list \<times> 's" where
  "tool_loop rt engine availableTools agentType executionCount history
     responseMessage st =
     (case r_tool_calls responseMessage of
        None \<Rightarrow> (Inr (responseMessage, executionCount), history, st)
      | Some calls \<Rightarrow>
          if length calls > 0 \<and> executionCount < maxToolCalls
          then (let history1 = history @ [assistant_tool_request calls];
                    toolOutputs = map (run_tool rt availableTools) calls;
                    history2 = history1 @ toolOutputs
                in case engine st (buildChatPrompt history2) agentType chat_options of
                     (Inl e, st') \<Rightarrow> (Inl e, history2, st')
                   | (Inr nextMessage, st') \<Rightarrow>
                       tool_loop rt engine availableTools agentType
                         (Suc executionCount) history2 nextMessage st')
          else (Inr (responseMessage, executionCount), history, st))"
  by pat_completeness auto
termination
  by (relation "measure (\<lambda>(p, e, t, a, executionCount, h, r, s). maxToolCalls - executionCount)")
     auto

record chat_request =
  body_sessionId :: "string option"
  body_message :: string
  body_context :: bool  \<comment> \<open>whether \<^verbatim>\<open>req.body.context\<close> is truthy\<close>
  user_id :: "string option"  \<comment> \<open>\<^verbatim>\<open>req.user?.id\<close>\<close>

record nondeterminism =
  uuid_session :: string  \<comment> \<open>what \<^verbatim>\<open>uuidv4()\<close> gives for a new session\<close>
  uuid_message :: string  \<comment> \<open>what \<^verbatim>\<open>uuidv4()\<close> gives for the answer's id\<close>
  date_iso :: string  \<comment> \<open>\<^verbatim>\<open>new Date().toISOString()\<close> when the answer is assembled\<close>

record assistant_reply =
  a_id :: string
  a_role :: string
  a_content :: string
  a_timestamp :: string

record chat_metadata =
  messageCount :: nat
  hasContext :: bool
  cached :: bool
  toolsUsedCount :: nat

record chat_response =
  success :: bool
  sessionId :: string
  message :: assistant_reply
  metadata :: chat_metadata

type_synonym chatSessions = "string \<rightharpoonup> message list"

definition userId_of :: "chat_request \<Rightarrow> string" where
  \<comment> \<open>\<^verbatim>\<open>const userId = req.user?.id || 'anonymous-dev'\<close>\<close>
  "userId_of req = truthy_string (user_id req) ''anonymous-dev''"

definition currentSessionId_of :: "nondeterminism \<Rightarrow> chat_request \<Rightarrow> string" where
  \<comment> \<open>\<^verbatim>\<open>const currentSessionId = sessionId || uuidv4()\<close>\<close>
  "currentSessionId_of fresh req = truthy_string (body_sessionId req) (uuid_session fresh)"

definition history_of :: "chatSessions \<Rightarrow> string \<Rightarrow> message list" where
  \<comment> \<open>\<^verbatim>\<open>if (!chatSessions.has(id)) chatSessions.set(id, []); chatSessions.get(id)\<close>\<close>
  "history_of chatSessions currentSessionId =
     (case chatSessions currentSessionId of None \<Rightarrow> [] | Some h \<Rightarrow> h)"

definition chat ::
  "runtime \<Rightarrow> 's engine \<Rightarrow> tool_table \<Rightarrow> nondeterminism \<Rightarrow> chat_request \<Rightarrow>
   chatSessions \<times> 's \<Rightarrow> (js_error + chat_response) \<times> chatSessions \<times> 's" where
  \<comment> \<open>\<^const>\<open>Inl\<close> is \<^verbatim>\<open>next(error)\<close>, \<^const>\<open>Inr\<close> the body of \<^verbatim>\<open>res.json\<close>. The history is an
      array that \<^verbatim>\<open>push\<close> changes in place, so what was pushed before a throw stays in
      \<^verbatim>\<open>chatSessions\<close>.\<close>
  "chat rt engine availableTools fresh req state =
     (case state of (chatSessions, st) \<Rightarrow>
        (let userId = userId_of req;
             currentSessionId = currentSessionId_of fresh req;
             history1 = history_of chatSessions currentSessionId @ [user_message (body_message req)];
             agentType = ''chat-'' @ userId
         in case engine st (buildChatPrompt history1) agentType chat_options of
              (Inl e, st1) \<Rightarrow> (Inl e, chatSessions(currentSessionId \<mapsto> history1), st1)
            | (Inr responseMessage, st1) \<Rightarrow>
                (case tool_loop rt engine availableTools agentType 0 history1
                        responseMessage st1 of
                   (Inl e, history2, st2) \<Rightarrow>
                     (Inl e, chatSessions(currentSessionId \<mapsto> history2), st2)
                 | (Inr (lastMessage, executionCount), history2, st2) \<Rightarrow>
                     (let final =
                            (if executionCount \<ge> maxToolCalls
                             then lastMessage\<lparr>r_content := Some maxToolCalls_content\<rparr>
                             else lastMessage)
                      in case r_content final of
                           None \<Rightarrow>
                             (Inl (Error None msg_invalid_response),
                              chatSessions(currentSessionId \<mapsto> history2), st2)
                         | Some text \<Rightarrow>
                             if text = []
                             then (Inl (Error None msg_invalid_response),
                                   chatSessions(currentSessionId \<mapsto> history2), st2)
                             else (let history3 = history2 @ [assistant_message text]
                                   in (Inr \<lparr>success = True,
                                            sessionId = currentSessionId,
                                            message =
                                              \<lparr>a_id = uuid_message fresh, a_role = ''assistant'',
                                               a_content = text, a_timestamp = date_iso fresh\<rparr>,
                                            metadata =
                                              \<lparr>messageCount = (length history3 + 1) div 2,
                                               hasContext = body_context req,
                                               cached = (r_cached final = Some True),
                                               toolsUsedCount = executionCount\<rparr>\<rparr>,
                                       chatSessions(currentSessionId \<mapsto> history3), st2))))))"

definition service_engine :: "'w OpenAIService \<Rightarrow> 'w platform \<Rightarrow> ('w \<times> ai_response memoryCache) engine" where
  \<comment> \<open>\<^verbatim>\<open>openAIService.callOpenAI(prompt, agentType, options)\<close> as \<^verbatim>\<open>chat\<close> calls it, with an
      array as the prompt\<close>
  "service_engine this pf st prompt agentType options =
     callOpenAI this pf (PromptMessages prompt) agentType options st"

definition spy :: "'s engine \<Rightarrow> ((message list \<times> string) list \<times> 's) engine" where
  \<comment> \<open>a test double around an engine: it records the prompt and the agent type of every
      call, in call order, and answers as the engine does\<close>
  "spy engine st prompt agentType options =
     (case st of (calls, s) \<Rightarrow>
        (case engine s prompt agentType options of
           (answer, s') \<Rightarrow> (answer, (calls @ [(prompt, agentType)], s'))))"


section \<open>Predicates of the statements and test doubles\<close>

definition always_requests_tools :: "'s engine \<Rightarrow> bool" where
  \<comment> \<open>an engine whose every answer asks for at least one tool call\<close>
  "always_requests_tools engine =
     (\<forall>st prompt agentType options.
        \<exists>r st' calls. engine st prompt agentType options = (Inr r, st') \<and>
          r_tool_calls r = Some calls \<and> calls \<noteq> [])"

definition round_message :: "message \<Rightarrow> bool" where
  \<comment> \<open>what a tool round pushes: the assistant's request, without text, or a tool's message\<close>
  "round_message m =
     (m_role m = ''tool'' \<or>
      (m_role m = ''assistant'' \<and> m_content m = None \<and> m_tool_calls m \<noteq> None))"

definition cache_ok :: "ai_response memoryCache \<Rightarrow> bool" where
  \<comment> \<open>no cached answer has a top-level \<^verbatim>\<open>tool_calls\<close> property\<close>
  "cache_ok memoryCache = (\<forall>key r. map_of memoryCache key = Some r \<longrightarrow> r_tool_calls r = None)"

definition cache_unflagged :: "ai_response memoryCache \<Rightarrow> bool" where
  \<comment> \<open>no cached answer has a top-level \<^verbatim>\<open>tool_calls\<close> or \<^verbatim>\<open>cached\<close> property\<close>
  "cache_unflagged memoryCache =
     (\<forall>key r. map_of memoryCache key = Some r \<longrightarrow> r_tool_calls r = None \<and> r_cached r = None)"

definition in_namespace :: "'v memoryCache \<Rightarrow> bool" where
  \<comment> \<open>every key of the store starts with \<^verbatim>\<open>ai:\<close>\<close>
  "in_namespace memoryCache = list_all (\<lambda>key. startsWith key ''ai:'') (map fst memoryCache)"

text \<open>
  The doubles below stand in for what lies outside the process. The platform double
  takes the identity for MD5 and a serialisation that lists role and content of every
  message. \<^verbatim>\<open>pong_client\<close> answers every request with the text "pong" next to a nested
  tool-call request and counts its calls in the state; \<^verbatim>\<open>failing_client\<close> rejects every
  request with the given error code.
\<close>

definition stub_stringify :: "message list \<Rightarrow> string" where
  "stub_stringify ms =
     concat (map (\<lambda>m. m_role m @ '':'' @ (case m_content m of None \<Rightarrow> [] | Some c \<Rightarrow> c) @ '';'') ms)"

definition stub_platform :: "nat platform" where
  "stub_platform =
     \<lparr>md5 = (\<lambda>s. s), JSON_stringify = stub_stringify,
      Date_toISOString = (\<lambda>w. ''2025-01-01T00:00:00.000Z'')\<rparr>"

definition health_call :: tool_call where
  "health_call = \<lparr>tc_id = ''call_1'', tc_name = ''getServiceHealth'', tc_arguments = ''{}''\<rparr>"

definition unknown_call :: tool_call where
  "unknown_call = \<lparr>tc_id = ''call_2'', tc_name = ''restartService'', tc_arguments = ''{}''\<rparr>"

definition throwing_call :: tool_call where
  "throwing_call = \<lparr>tc_id = ''call_3'', tc_name = ''diagnoseIssue'', tc_arguments = ''{}''\<rparr>"

definition inherited_call :: tool_call where
  "inherited_call = \<lparr>tc_id = ''call_4'', tc_name = ''toString'', tc_arguments = ''{}''\<rparr>"

definition pong_client :: "nat \<Rightarrow> api_request \<Rightarrow> api_outcome \<times> nat" where
  "pong_client w request =
     (Resolved (Some \<lparr>ar_choices =
                        Some [\<lparr>ch_message =
                                 Some \<lparr>am_content = Some ''pong'',
                                       am_tool_calls = Some [health_call]\<rparr>\<rparr>],
                      ar_model = Some ''gpt-4o-mini'', ar_usage = Some 42\<rparr>), Suc w)"

definition failing_client :: "string \<Rightarrow> nat \<Rightarrow> api_request \<Rightarrow> api_outcome \<times> nat" where
  "failing_client code w request = (Rejected (Error (Some code) ''request failed''), Suc w)"

definition stub_service :: "(nat \<Rightarrow> api_request \<Rightarrow> api_outcome \<times> nat) \<Rightarrow> nat OpenAIService" where
  "stub_service c = \<lparr>client = c, svc_model = ''gpt-4o-mini'', svc_maxTokens = 2000, useCache = True\<rparr>"

definition tool_requesting_engine :: "nat engine" where
  \<comment> \<open>the double of the loop-boundedness test: every answer asks for four tools\<close>
  "tool_requesting_engine n prompt agentType options =
     (Inr \<lparr>r_content = None,
           r_tool_calls = Some [health_call, unknown_call, throwing_call, inherited_call],
           r_cached = None,
           r_fallback = None, r_choices = None, r_model = None, r_usage = None,
           r_timestamp = None, r_agentType = None\<rparr>, Suc n)"

definition text_engine :: "nat engine" where
  \<comment> \<open>an engine that answers every prompt with the text "pong"\<close>
  "text_engine n prompt agentType options =
     (Inr \<lparr>r_content = Some ''pong'', r_tool_calls = None, r_cached = None,
           r_fallback = None, r_choices = None, r_model = None, r_usage = None,
           r_timestamp = None, r_agentType = None\<rparr>, Suc n)"

definition one_round_engine :: "nat engine" where
  \<comment> \<open>asks for four tools on its first call and answers with text afterwards\<close>
  "one_round_engine n prompt agentType options =
     (if n = 0 then tool_requesting_engine n prompt agentType options
      else text_engine n prompt agentType options)"

definition stub_tools :: tool_table where
  \<comment> \<open>one executor that returns, one that throws, and no other\<close>
  "stub_tools functionName =
     (if functionName = ''getServiceHealth'' then Some (\<lambda>args. Returns (OutString ''all up''))
      else if functionName = ''diagnoseIssue'' then Some (\<lambda>args. Throws ''socket hang up'')
      else None)"

definition stub_runtime :: runtime where
  \<comment> \<open>the runtime on the argument text \<^verbatim>\<open>{}\<close> of the doubles: \<^verbatim>\<open>JSON.parse\<close> accepts it, it
      is an object, and it is its own \<^verbatim>\<open>JSON.stringify\<close> text\<close>
  "stub_runtime =
     \<lparr>JSON_parse_error = (\<lambda>args. None), parses_to_object = (\<lambda>args. True),
      stringify_Object = (\<lambda>args. args),
      TypeError_message = (\<lambda>name. ''Cannot convert undefined or null to object'')\<rparr>"

definition fresh_a :: nondeterminism where
  "fresh_a = \<lparr>uuid_session = ''uuid-a1'', uuid_message = ''uuid-a2'', date_iso = ''2025-01-01T00:00:01.000Z''\<rparr>"

definition fresh_b :: nondeterminism where
  "fresh_b = \<lparr>uuid_session = ''uuid-b1'', uuid_message = ''uuid-b2'', date_iso = ''2025-01-01T00:00:02.000Z''\<rparr>"

definition request :: "string option \<Rightarrow> string \<Rightarrow> string option \<Rightarrow> chat_request" where
  "request sid text user =
     \<lparr>body_sessionId = sid, body_message = text, body_context = False, user_id = user\<rparr>"

section \<open>The tool loop\<close>

declare tool_loop.simps [simp del]

lemma tool_loop_stop:
  "r_tool_calls r = None \<or> r_tool_calls r = Some [] \<or> \<not> n < maxToolCalls \<Longrightarrow>
   tool_loop p e t a n h r s = (Inr (r, n), h, s)"
  by (auto simp add: tool_loop.simps split: option.splits)

lemma tool_loop_step:
  "r_tool_calls r = Some calls \<Longrightarrow> calls \<noteq> [] \<Longrightarrow> n < maxToolCalls \<Longrightarrow>
   tool_loop p e t a n h r s =
     (case e s (buildChatPrompt (h @ assistant_tool_request calls # map (run_tool p t) calls)) a
             chat_options of
        (Inl err, s1) \<Rightarrow> (Inl err, h @ assistant_tool_request calls # map (run_tool p t) calls, s1)
      | (Inr nxt, s1) \<Rightarrow>
          tool_loop p e t a (Suc n) (h @ assistant_tool_request calls # map (run_tool p t) calls)
            nxt s1)"
  by (subst tool_loop.simps) (simp add: Let_def split: prod.splits sum.splits)

lemma tool_loop_cases:
  obtains (stop) "tool_loop p e t a n h r s = (Inr (r, n), h, s)"
        "r_tool_calls r = None \<or> r_tool_calls r = Some [] \<or> \<not> n < maxToolCalls"
  | (throw) calls err s1 where "r_tool_calls r = Some calls" "calls \<noteq> []" "n < maxToolCalls"
        "e s (buildChatPrompt (h @ assistant_tool_request calls # map (run_tool p t) calls)) a
           chat_options = (Inl err, s1)"
        "tool_loop p e t a n h r s =
           (Inl err, h @ assistant_tool_request calls # map (run_tool p t) calls, s1)"
  | (again) calls nxt s1 where "r_tool_calls r = Some calls" "calls \<noteq> []" "n < maxToolCalls"
        "e s (buildChatPrompt (h @ assistant_tool_request calls # map (run_tool p t) calls)) a
           chat_options = (Inr nxt, s1)"
        "tool_loop p e t a n h r s =
           tool_loop p e t a (Suc n) (h @ assistant_tool_request calls # map (run_tool p t) calls)
             nxt s1"
proof (cases "r_tool_calls r = None \<or> r_tool_calls r = Some [] \<or> \<not> n < maxToolCalls")
  case True
  show ?thesis by (rule stop[OF tool_loop_stop[OF True] True])
next
  case False
  then obtain calls where c: "r_tool_calls r = Some calls" "calls \<noteq> []" "n < maxToolCalls"
    by auto
  let ?h2 = "h @ assistant_tool_request calls # map (run_tool p t) calls"
  obtain ans s1 where e: "e s (buildChatPrompt ?h2) a chat_options = (ans, s1)"
    by (cases "e s (buildChatPrompt ?h2) a chat_options")
  show ?thesis
  proof (cases ans)
    case (Inl err)
    with c e show ?thesis using throw by (simp add: tool_loop_step)
  next
    case (Inr nxt)
    with c e show ?thesis using again by (simp add: tool_loop_step)
  qed
qed

lemma run_tool_cases:
  obtains (missing) "property_of p t (tc_name c) = None"
      "run_tool p t c =
         tool_message (tc_id c) (tc_name c) (msg_tool_missing_pre @ tc_name c @ msg_tool_missing_post)"
  | (parse) f msg where "property_of p t (tc_name c) = Some f"
      "JSON_parse_error p (tc_arguments c) = Some msg"
      "run_tool p t c = tool_message (tc_id c) (tc_name c) (msg_tool_error @ msg)"
  | (throws) f msg where "property_of p t (tc_name c) = Some f"
      "JSON_parse_error p (tc_arguments c) = None" "f (tc_arguments c) = Throws msg"
      "run_tool p t c = tool_message (tc_id c) (tc_name c) (msg_tool_error @ msg)"
  | (returns) f out where "property_of p t (tc_name c) = Some f"
      "JSON_parse_error p (tc_arguments c) = None" "f (tc_arguments c) = Returns out"
      "run_tool p t c = tool_message (tc_id c) (tc_name c) (output_text out)"
proof (cases "property_of p t (tc_name c)")
  case None
  then show ?thesis using missing by (simp add: run_tool_def Let_def)
next
  case (Some f)
  show ?thesis
  proof (cases "JSON_parse_error p (tc_arguments c)")
    case (Some msg)
    with \<open>property_of p t (tc_name c) = Some f\<close> show ?thesis
      using parse by (simp add: run_tool_def Let_def)
  next
    case None
    show ?thesis
    proof (cases "f (tc_arguments c)")
      case (Returns out)
      with None \<open>property_of p t (tc_name c) = Some f\<close> show ?thesis
        using returns by (simp add: run_tool_def Let_def)
    next
      case (Throws msg)
      with None \<open>property_of p t (tc_name c) = Some f\<close> show ?thesis
        using throws by (simp add: run_tool_def Let_def)
    qed
  qed
qed

lemma run_tool_round_message: "round_message (run_tool p t c)"
  by (cases rule: run_tool_cases[of p t c]) (simp_all add: round_message_def tool_message_def)

lemma round_messages:
  "\<forall>m \<in> set rounds. round_message m \<Longrightarrow>
   \<forall>m \<in> set (assistant_tool_request calls # map (run_tool p t) calls @ rounds). round_message m"
  by (auto simp add: run_tool_round_message) (simp add: round_message_def assistant_tool_request_def)

lemma tool_loop_history:
  "tool_loop p e t a n h r s = (out, h', s') \<Longrightarrow>
   \<exists>rounds. h' = h @ rounds \<and> (\<forall>m \<in> set rounds. round_message m)"
proof (induction "maxToolCalls - n" arbitrary: n h r s)
  case 0
  then have "tool_loop p e t a n h r s = (Inr (r, n), h, s)"
    by (intro tool_loop_stop) simp
  with "0.prems" show ?case by simp
next
  case (Suc k)
  show ?case
  proof (cases rule: tool_loop_cases[of p e t a n h r s])
    case stop
    with Suc.prems show ?thesis by simp
  next
    case (throw calls err s1)
    with Suc.prems have "h' = h @ (assistant_tool_request calls # map (run_tool p t) calls @ [])"
      by simp
    moreover have
      "\<forall>m \<in> set (assistant_tool_request calls # map (run_tool p t) calls @ []). round_message m"
      by (rule round_messages) simp
    ultimately show ?thesis by blast
  next
    case (again calls nxt s1)
    let ?h2 = "h @ assistant_tool_request calls # map (run_tool p t) calls"
    have "k = maxToolCalls - Suc n" using Suc.hyps(2) by simp
    moreover have "tool_loop p e t a (Suc n) ?h2 nxt s1 = (out, h', s')"
      using again(5) Suc.prems by simp
    ultimately obtain rounds where r: "h' = ?h2 @ rounds" "\<forall>m \<in> set rounds. round_message m"
      using Suc.hyps(1) by blast
    have "\<forall>m \<in> set (assistant_tool_request calls # map (run_tool p t) calls @ rounds).
            round_message m"
      using r(2) by (rule round_messages)
    moreover have "h' = h @ (assistant_tool_request calls # map (run_tool p t) calls @ rounds)"
      using r(1) by simp
    ultimately show ?thesis by blast
  qed
qed

lemma tool_loop_spy_calls:
  "tool_loop p (spy e) t a n h r (calls0, s) = (out, h', (calls1, s')) \<Longrightarrow> n \<le> maxToolCalls \<Longrightarrow>
   \<exists>new. calls1 = calls0 @ new \<and> length new \<le> maxToolCalls - n \<and>
     (\<forall>r' n'. out = Inr (r', n') \<longrightarrow> n \<le> n' \<and> n' \<le> maxToolCalls \<and> length new = n' - n)"
proof (induction "maxToolCalls - n" arbitrary: n h r s calls0)
  case 0
  then have "tool_loop p (spy e) t a n h r (calls0, s) = (Inr (r, n), h, (calls0, s))"
    by (intro tool_loop_stop) simp
  with "0.prems" show ?case by auto
next
  case (Suc k)
  show ?case
  proof (cases rule: tool_loop_cases[of p "spy e" t a n h r "(calls0, s)"])
    case stop
    with Suc.prems show ?thesis by auto
  next
    case (throw calls err s1)
    from throw(4) have
      "fst s1 = calls0 @
         [(buildChatPrompt (h @ assistant_tool_request calls # map (run_tool p t) calls), a)]"
      by (auto simp add: spy_def split: prod.splits)
    with throw Suc.prems Suc.hyps(2) show ?thesis by auto
  next
    case (again calls nxt s1)
    let ?h2 = "h @ assistant_tool_request calls # map (run_tool p t) calls"
    obtain c1 s1' where s1: "s1 = (c1, s1')" by (cases s1)
    from again(4) s1 have c1: "c1 = calls0 @ [(buildChatPrompt ?h2, a)]"
      by (auto simp add: spy_def split: prod.splits)
    have k: "k = maxToolCalls - Suc n" using Suc.hyps(2) by simp
    have "tool_loop p (spy e) t a (Suc n) ?h2 nxt (c1, s1') = (out, h', (calls1, s'))"
      using again(5) Suc.prems s1 by simp
    moreover have "Suc n \<le> maxToolCalls" using again(3) by simp
    ultimately obtain new where new: "calls1 = c1 @ new" "length new \<le> maxToolCalls - Suc n"
      "\<forall>r' n'. out = Inr (r', n') \<longrightarrow>
         Suc n \<le> n' \<and> n' \<le> maxToolCalls \<and> length new = n' - Suc n"
      using Suc.hyps(1)[OF k] by blast
    have "calls1 = calls0 @ ((buildChatPrompt ?h2, a) # new)" using new(1) c1 by simp
    moreover have "length ((buildChatPrompt ?h2, a) # new) \<le> maxToolCalls - n"
      using new(2) again(3) by simp
    moreover have "\<forall>r' n'. out = Inr (r', n') \<longrightarrow> n \<le> n' \<and> n' \<le> maxToolCalls \<and>
        length ((buildChatPrompt ?h2, a) # new) = n' - n"
      using new(3) by auto
    ultimately show ?thesis by blast
  qed
qed

lemma tool_loop_always:
  assumes "always_requests_tools e"
  shows "r_tool_calls r = Some calls \<Longrightarrow> calls \<noteq> [] \<Longrightarrow> n \<le> maxToolCalls \<Longrightarrow>
   \<exists>r' h' s'. tool_loop p e t a n h r s = (Inr (r', maxToolCalls), h', s')"
proof (induction "maxToolCalls - n" arbitrary: n h r s calls)
  case 0
  then have "tool_loop p e t a n h r s = (Inr (r, n), h, s)"
    by (intro tool_loop_stop) simp
  moreover have "n = maxToolCalls" using 0 by simp
  ultimately show ?case by simp
next
  case (Suc k)
  let ?h2 = "h @ assistant_tool_request calls # map (run_tool p t) calls"
  have lt: "n < maxToolCalls" using Suc.hyps(2) by simp
  obtain nxt s1 calls' where e: "e s (buildChatPrompt ?h2) a chat_options = (Inr nxt, s1)"
    "r_tool_calls nxt = Some calls'" "calls' \<noteq> []"
    using assms unfolding always_requests_tools_def by blast
  have "tool_loop p e t a n h r s = tool_loop p e t a (Suc n) ?h2 nxt s1"
    using Suc.prems lt e(1) by (simp add: tool_loop_step)
  moreover have "k = maxToolCalls - Suc n" using Suc.hyps(2) by simp
  moreover have "Suc n \<le> maxToolCalls" using lt by simp
  ultimately show ?case using Suc.hyps(1)[OF _ e(2) e(3)] by simp
qed

lemma spy_always: "always_requests_tools e \<Longrightarrow> always_requests_tools (spy e)"
  unfolding always_requests_tools_def spy_def
  apply (intro allI)
  subgoal for st prompt agentType options
    apply (cases st)
    subgoal for calls s
      apply (drule spec[of _ s], drule spec[of _ prompt], drule spec[of _ agentType],
          drule spec[of _ options])
      apply auto
      done
    done
  done
section \<open>The chat turn with an arbitrary engine\<close>

lemma maxToolCalls_content_truthy: "maxToolCalls_content \<noteq> []"
  by (simp add: maxToolCalls_content_def)

lemma chat_engine_throws:
  "engine st
     (buildChatPrompt (history_of ss (currentSessionId_of fresh req) @ [user_message (body_message req)]))
     (''chat-'' @ userId_of req) chat_options = (Inl err, st1) \<Longrightarrow>
   chat p engine t fresh req (ss, st) =
     (Inl err,
      ss(currentSessionId_of fresh req \<mapsto>
           history_of ss (currentSessionId_of fresh req) @ [user_message (body_message req)]),
      st1)"
  by (simp add: chat_def Let_def)

lemma chat_engine_answers:
  "engine st
     (buildChatPrompt (history_of ss (currentSessionId_of fresh req) @ [user_message (body_message req)]))
     (''chat-'' @ userId_of req) chat_options = (Inr r, st1) \<Longrightarrow>
   tool_loop p engine t (''chat-'' @ userId_of req) 0
     (history_of ss (currentSessionId_of fresh req) @ [user_message (body_message req)]) r st1 =
     (looped, h2, st2) \<Longrightarrow>
   chat p engine t fresh req (ss, st) =
     (case looped of
        Inl err \<Rightarrow> (Inl err, ss(currentSessionId_of fresh req \<mapsto> h2), st2)
      | Inr (lastMessage, executionCount) \<Rightarrow>
          (let final = (if executionCount \<ge> maxToolCalls
                        then lastMessage\<lparr>r_content := Some maxToolCalls_content\<rparr>
                        else lastMessage)
           in if r_content final = None \<or> r_content final = Some []
              then (Inl (Error None msg_invalid_response),
                    ss(currentSessionId_of fresh req \<mapsto> h2), st2)
              else (Inr \<lparr>success = True, sessionId = currentSessionId_of fresh req,
                         message = \<lparr>a_id = uuid_message fresh, a_role = ''assistant'',
                                    a_content = the (r_content final),
                                    a_timestamp = date_iso fresh\<rparr>,
                         metadata = \<lparr>messageCount = (length h2 + 2) div 2,
                                     hasContext = body_context req,
                                     cached = (r_cached final = Some True),
                                     toolsUsedCount = executionCount\<rparr>\<rparr>,
                    ss(currentSessionId_of fresh req \<mapsto>
                         h2 @ [assistant_message (the (r_content final))]),
                    st2)))"
  by (auto simp add: chat_def Let_def split: sum.splits option.splits prod.splits)


lemma chat_spy_first_call:
  assumes "chat p (spy engine) t fresh req (ss, (calls0, st)) = (out, ss', (calls1, st'))"
  shows "\<exists>rest. calls1 = calls0 @
           (buildChatPrompt (history_of ss (currentSessionId_of fresh req) @
                             [user_message (body_message req)]),
            ''chat-'' @ userId_of req) # rest"
proof -
  let ?h1 = "history_of ss (currentSessionId_of fresh req) @ [user_message (body_message req)]"
  let ?agent = "''chat-'' @ userId_of req"
  obtain ans s1 where inner: "engine st (buildChatPrompt ?h1) ?agent chat_options = (ans, s1)"
    by (cases "engine st (buildChatPrompt ?h1) ?agent chat_options")
  let ?c1 = "calls0 @ [(buildChatPrompt ?h1, ?agent)]"
  have first: "spy engine (calls0, st) (buildChatPrompt ?h1) ?agent chat_options = (ans, (?c1, s1))"
    using inner by (simp add: spy_def)
  show ?thesis
  proof (cases ans)
    case (Inl err)
    have "chat p (spy engine) t fresh req (ss, (calls0, st)) =
            (Inl err, ss(currentSessionId_of fresh req \<mapsto> ?h1), (?c1, s1))"
      using first[unfolded Inl] by (rule chat_engine_throws)
    with assms have "calls1 = ?c1" by simp
    then show ?thesis by simp
  next
    case (Inr r)
    obtain looped h2 c2 s2 where
      loop: "tool_loop p (spy engine) t ?agent 0 ?h1 r (?c1, s1) = (looped, h2, (c2, s2))"
      by (metis prod.exhaust)
    from tool_loop_spy_calls[OF loop] obtain new where "c2 = ?c1 @ new"
      by auto
    moreover have "calls1 = c2"
      using assms chat_engine_answers[OF first[unfolded Inr] loop]
      by (auto simp add: Let_def split: sum.splits prod.splits if_splits)
    ultimately show ?thesis by simp
  qed
qed

lemma chat_history:
  assumes "chat p engine t fresh req (ss, st) = (out, ss', st')"
  shows "\<exists>appended.
           ss' = ss(currentSessionId_of fresh req \<mapsto>
                    history_of ss (currentSessionId_of fresh req) @
                    user_message (body_message req) # appended) \<and>
           (\<forall>resp. out = Inr resp \<longrightarrow>
              sessionId resp = currentSessionId_of fresh req \<and>
              (\<exists>rounds. appended = rounds @ [assistant_message (a_content (message resp))] \<and>
                        (\<forall>m \<in> set rounds. round_message m)))"
proof -
  let ?sid = "currentSessionId_of fresh req"
  let ?h1 = "history_of ss ?sid @ [user_message (body_message req)]"
  let ?agent = "''chat-'' @ userId_of req"
  obtain ans s1 where first: "engine st (buildChatPrompt ?h1) ?agent chat_options = (ans, s1)"
    by (cases "engine st (buildChatPrompt ?h1) ?agent chat_options")
  show ?thesis
  proof (cases ans)
    case (Inl err)
    with first assms have "out = Inl err" "ss' = ss(?sid \<mapsto> ?h1)"
      by (simp_all add: chat_engine_throws)
    then show ?thesis by (intro exI[of _ "[]"]) simp
  next
    case (Inr r)
    obtain looped h2 s2 where loop: "tool_loop p engine t ?agent 0 ?h1 r s1 = (looped, h2, s2)"
      by (metis prod.exhaust)
    from tool_loop_history[OF loop] obtain rounds where rounds:
      "h2 = ?h1 @ rounds" "\<forall>m \<in> set rounds. round_message m"
      by blast
    note unfolded = chat_engine_answers[OF first[unfolded Inr] loop]
    show ?thesis
    proof (cases out)
      case (Inl err)
      with assms unfolded have "ss' = ss(?sid \<mapsto> h2)"
        by (auto simp add: Let_def split: sum.splits prod.splits if_splits)
      with rounds Inl show ?thesis by (intro exI[of _ rounds]) simp
    next
      case (Inr resp)
      with assms unfolded have
        "ss' = ss(?sid \<mapsto> h2 @ [assistant_message (a_content (message resp))])"
        "sessionId resp = ?sid"
        by (auto simp add: Let_def split: sum.splits prod.splits if_splits)
      with rounds Inr show ?thesis
        by (intro exI[of _ "rounds @ [assistant_message (a_content (message resp))]"]) simp
    qed
  qed
qed

lemma truthy_string_Some: "s \<noteq> [] \<Longrightarrow> truthy_string (Some s) d = s"
  by (simp add: truthy_string_def)

section \<open>What a tool call leaves in the history\<close>

text \<open>
  Every tool message carries the role \<^verbatim>\<open>tool\<close>, the id of the call and the name the
  engine asked for, whatever became of the call.
\<close>

lemma run_tool_tagged:
  "m_role (run_tool p t c) = ''tool'' \<and> m_tool_call_id (run_tool p t c) = Some (tc_id c) \<and>
   m_name (run_tool p t c) = Some (tc_name c) \<and> m_tool_calls (run_tool p t c) = None \<and>
   m_content (run_tool p t c) \<noteq> None"
  by (cases rule: run_tool_cases[of p t c]) (simp_all add: tool_message_def)

lemma property_of_registered: "t name = Some f \<Longrightarrow> property_of p t name = Some f"
  by (simp add: property_of_def)

lemma property_of_unknown:
  "t name = None \<Longrightarrow> name \<notin> set Object_prototype_names \<Longrightarrow> property_of p t name = None"
  by (simp add: property_of_def Object_prototype_def Object_prototype_names_def)

lemma property_of_toString:
  "t ''toString'' = None \<Longrightarrow>
   property_of p t ''toString'' = Some (\<lambda>args. Returns (OutString ''[object Undefined]''))"
  by (simp add: property_of_def Object_prototype_def)

text \<open>
  A call whose name the lookup does not find, whose arguments do not parse or whose
  executor throws gets a message whose content starts with \<^verbatim>\<open>Erreur: \<close>; a call whose
  executor returns gets the result as content.
\<close>

lemma run_tool_failure:
  assumes "property_of p t (tc_name c) = None \<or>
           (\<exists>f. property_of p t (tc_name c) = Some f \<and>
                (JSON_parse_error p (tc_arguments c) \<noteq> None \<or>
                 (\<exists>msg. f (tc_arguments c) = Throws msg)))"
  shows "\<exists>detail. run_tool p t c =
           \<lparr>m_role = ''tool'', m_content = Some (msg_tool_error @ detail), m_tool_calls = None,
            m_tool_call_id = Some (tc_id c), m_name = Some (tc_name c)\<rparr>"
proof (cases rule: run_tool_cases[of p t c])
  case missing
  have "msg_tool_missing_pre = msg_tool_error @ ''outil ''"
    by (simp add: msg_tool_missing_pre_def msg_tool_error_def)
  with missing(2) have "run_tool p t c =
      \<lparr>m_role = ''tool'',
       m_content = Some (msg_tool_error @ (''outil '' @ tc_name c @ msg_tool_missing_post)),
       m_tool_calls = None, m_tool_call_id = Some (tc_id c), m_name = Some (tc_name c)\<rparr>"
    by (simp add: tool_message_def)
  then show ?thesis by blast
next
  case (parse f msg)
  then show ?thesis by (simp add: tool_message_def)
next
  case (throws f msg)
  then show ?thesis by (simp add: tool_message_def)
next
  case (returns f out)
  with assms show ?thesis by auto
qed

lemma run_tool_success:
  assumes "property_of p t (tc_name c) = Some f" and "JSON_parse_error p (tc_arguments c) = None"
    and "f (tc_arguments c) = Returns out"
  shows "run_tool p t c =
           \<lparr>m_role = ''tool'', m_content = Some (output_text out), m_tool_calls = None,
            m_tool_call_id = Some (tc_id c), m_name = Some (tc_name c)\<rparr>"
  using assms by (simp add: run_tool_def Let_def tool_message_def)

text \<open>
  A name that \<^verbatim>\<open>availableTools\<close> does not list and \<^verbatim>\<open>Object.prototype\<close> does is found and
  called. For \<^verbatim>\<open>toString\<close> the call returns, and the message has no error in it.
\<close>

lemma run_tool_toString:
  assumes "t ''toString'' = None" and "JSON_parse_error p args = None"
  shows "run_tool p t \<lparr>tc_id = call_id, tc_name = ''toString'', tc_arguments = args\<rparr> =
           \<lparr>m_role = ''tool'', m_content = Some ''[object Undefined]'', m_tool_calls = None,
            m_tool_call_id = Some call_id, m_name = Some ''toString''\<rparr>"
  using assms
  by (simp add: run_tool_def Let_def property_of_toString tool_message_def output_text_def)

text \<open>
  A round at any count below the bound calls the engine again with the history, the
  assistant's request and one tool message per call, in call order, and these
  messages stay in the history of the turn.
\<close>

lemma tool_loop_round:
  assumes "r_tool_calls r = Some calls" and "calls \<noteq> []" and "n < maxToolCalls"
    and "tool_loop p (spy e) t a n h r (calls0, s) = (out, h', (calls1, s'))"
  shows "\<exists>rest ext.
           calls1 = calls0 @
             (buildChatPrompt (h @ assistant_tool_request calls # map (run_tool p t) calls), a) #
             rest \<and>
           h' = h @ assistant_tool_request calls # map (run_tool p t) calls @ ext"
proof -
  let ?h2 = "h @ assistant_tool_request calls # map (run_tool p t) calls"
  let ?c2 = "calls0 @ [(buildChatPrompt ?h2, a)]"
  have "\<exists>rest ext. calls1 = ?c2 @ rest \<and> h' = ?h2 @ ext"
  proof (cases rule: tool_loop_cases[of p "spy e" t a n h r "(calls0, s)"])
    case stop
    with assms(1-3) show ?thesis by simp
  next
    case (throw calls' err s1')
    from throw(1) assms(1) have eq: "calls' = calls" by simp
    from throw(4) have "fst s1' = ?c2"
      unfolding eq by (auto simp add: spy_def split: prod.splits)
    with throw(5) assms(4) eq show ?thesis by auto
  next
    case (again calls' nxt s1')
    from again(1) assms(1) have eq: "calls' = calls" by simp
    obtain c s2 where s1': "s1' = (c, s2)" by (cases s1')
    from again(4) s1' have c: "c = ?c2"
      unfolding eq by (auto simp add: spy_def split: prod.splits)
    have l: "tool_loop p (spy e) t a (Suc n) ?h2 nxt (?c2, s2) = (out, h', (calls1, s'))"
      using again(5) assms(4) s1' c eq by simp
    have "Suc n \<le> maxToolCalls" using assms(3) by simp
    from tool_loop_spy_calls[OF l this] obtain new where "calls1 = ?c2 @ new"
      by auto
    moreover from tool_loop_history[OF l] obtain rounds where "h' = ?h2 @ rounds"
      by blast
    ultimately show ?thesis by blast
  qed
  then show ?thesis by auto
qed

text \<open>
  In a round at any count below the bound, a call that fails (no property of that
  name, arguments that do not parse, an executor that throws) and a call that returns
  both get their message, and the next call of the engine receives both, as does the
  history. The loop goes on: nothing of a failed call is thrown past the round.
\<close>

lemma tool_round_keeps_both:
  assumes "r_tool_calls r = Some calls" and "bad \<in> set calls" and "good \<in> set calls"
    and "n < maxToolCalls"
    and "property_of p t (tc_name bad) = None \<or>
         (\<exists>f. property_of p t (tc_name bad) = Some f \<and>
              (JSON_parse_error p (tc_arguments bad) \<noteq> None \<or>
               (\<exists>msg. f (tc_arguments bad) = Throws msg)))"
    and "property_of p t (tc_name good) = Some g"
    and "JSON_parse_error p (tc_arguments good) = None"
    and "g (tc_arguments good) = Returns result"
    and "tool_loop p (spy e) t a n h r (calls0, s) = (out, h', (calls1, s'))"
  shows "\<exists>prompt rest detail.
           calls1 = calls0 @ (prompt, a) # rest \<and>
           prompt = buildChatPrompt (h @ assistant_tool_request calls # map (run_tool p t) calls) \<and>
           \<lparr>m_role = ''tool'', m_content = Some (msg_tool_error @ detail), m_tool_calls = None,
            m_tool_call_id = Some (tc_id bad), m_name = Some (tc_name bad)\<rparr> \<in> set prompt \<and>
           \<lparr>m_role = ''tool'', m_content = Some (output_text result), m_tool_calls = None,
            m_tool_call_id = Some (tc_id good), m_name = Some (tc_name good)\<rparr> \<in> set prompt \<and>
           \<lparr>m_role = ''tool'', m_content = Some (msg_tool_error @ detail), m_tool_calls = None,
            m_tool_call_id = Some (tc_id bad), m_name = Some (tc_name bad)\<rparr> \<in> set h' \<and>
           \<lparr>m_role = ''tool'', m_content = Some (output_text result), m_tool_calls = None,
            m_tool_call_id = Some (tc_id good), m_name = Some (tc_name good)\<rparr> \<in> set h'"
proof -
  let ?h2 = "h @ assistant_tool_request calls # map (run_tool p t) calls"
  from run_tool_failure[OF assms(5)] obtain detail where
    bad: "run_tool p t bad =
            \<lparr>m_role = ''tool'', m_content = Some (msg_tool_error @ detail), m_tool_calls = None,
             m_tool_call_id = Some (tc_id bad), m_name = Some (tc_name bad)\<rparr>"
    by blast
  note good = run_tool_success[OF assms(6-8)]
  have members: "run_tool p t bad \<in> set ?h2" "run_tool p t good \<in> set ?h2"
    using assms(2,3) by simp_all
  have in_h2:
    "\<lparr>m_role = ''tool'', m_content = Some (msg_tool_error @ detail), m_tool_calls = None,
      m_tool_call_id = Some (tc_id bad), m_name = Some (tc_name bad)\<rparr> \<in> set ?h2"
    "\<lparr>m_role = ''tool'', m_content = Some (output_text result), m_tool_calls = None,
      m_tool_call_id = Some (tc_id good), m_name = Some (tc_name good)\<rparr> \<in> set ?h2"
    using members[unfolded bad good] by blast+
  have ne: "calls \<noteq> []" using assms(2) by auto
  from tool_loop_round[OF assms(1) ne assms(4,9)] obtain rest ext where
    c: "calls1 = calls0 @ (buildChatPrompt ?h2, a) # rest" and h: "h' = ?h2 @ ext"
    by auto
  have sub: "set ?h2 \<subseteq> set (buildChatPrompt ?h2)" "set ?h2 \<subseteq> set h'"
    using h by (auto simp add: buildChatPrompt_def)
  show ?thesis
    using c in_h2 sub by (intro exI[of _ "buildChatPrompt ?h2"] exI[of _ rest] exI[of _ detail]) blast
qed


lemmas stub_defs =
  request_def fresh_a_def fresh_b_def stub_runtime_def stub_tools_def text_engine_def
  tool_requesting_engine_def one_round_engine_def health_call_def unknown_call_def
  throwing_call_def
  stub_service_def stub_platform_def pong_client_def failing_client_def

lemmas chat_eval =
  chat_def Let_def spy_def history_of_def userId_of_def currentSessionId_of_def
  truthy_string_def maxToolCalls_def

lemma text_turn_hello:
  "chat stub_runtime (spy text_engine) stub_tools fresh_a
     (request (Some ''s1'') ''hello'' (Some ''u1'')) (Map.empty, ([], 0)) =
   (Inr \<lparr>success = True, sessionId = ''s1'',
         message = \<lparr>a_id = ''uuid-a2'', a_role = ''assistant'', a_content = ''pong'',
                    a_timestamp = ''2025-01-01T00:00:01.000Z''\<rparr>,
         metadata = \<lparr>messageCount = 1, hasContext = False, cached = False,
                     toolsUsedCount = 0\<rparr>\<rparr>,
    [''s1'' \<mapsto> [user_message ''hello'', assistant_message ''pong'']],
    ([(buildChatPrompt [user_message ''hello''], ''chat-u1'')], 1))"
  by (simp add: chat_eval request_def fresh_a_def text_engine_def tool_loop_stop)

section \<open>\<^verbatim>\<open>callOpenAI\<close> and the chat turn of the service\<close>

lemma fallbacks_shape:
  "fallbacks agentType = Some r \<Longrightarrow> r = inherited_member \<or> (\<exists>c. r = fallback_object c)"
  by (auto simp add: fallbacks_def split: if_splits)

lemma fallback_object_shape:
  "getFallbackResponse agentType = inherited_member \<or>
   (\<exists>c. getFallbackResponse agentType = fallback_object c)"
proof (cases "fallbacks agentType")
  case None
  then show ?thesis by (auto simp add: getFallbackResponse_def)
next
  case (Some r)
  with fallbacks_shape[OF Some] show ?thesis by (simp add: getFallbackResponse_def)
qed

lemma messageCount_arith: "Suc (Suc n div 2) = (n + 3) div 2"
  by arith

lemma callOpenAI_catch_shape:
  assumes "callOpenAI_catch agentType e = Inr r"
  shows "r_tool_calls r = None \<and> r_cached r = None"
proof -
  from assms have "r = getFallbackResponse agentType"
    by (simp add: callOpenAI_catch_def split: if_splits)
  with fallback_object_shape[of agentType] show ?thesis
    by (auto simp add: fallback_object_def inherited_member_def)
qed

lemma cache_ok_update:
  "cache_ok c \<Longrightarrow> r_tool_calls r = None \<Longrightarrow> cache_ok (AList.update k r c)"
  by (simp add: cache_ok_def update_conv')

lemma callOpenAI_unfold:
  "callOpenAI this pf prompt agentType options (w, c) =
     (case cacheKey_of pf prompt agentType of
        None \<Rightarrow> (callOpenAI_catch agentType (Error None msg_invalid_prompt), (w, c))
      | Some key \<Rightarrow>
          (case (if useCache this then aiCache_get c key else None) of
             Some r \<Rightarrow> (Inr r, (w, c))
           | None \<Rightarrow>
               (case messages_of prompt agentType of
                  None \<Rightarrow> (callOpenAI_catch agentType (Error None msg_invalid_prompt), (w, c))
                | Some ms \<Rightarrow>
                    (case client this w (requestConfig this ms options) of
                       (Rejected e, w1) \<Rightarrow> (callOpenAI_catch agentType e, (w1, c))
                     | (Resolved response, w1) \<Rightarrow>
                         (case first_message response of
                            None \<Rightarrow>
                              (callOpenAI_catch agentType (Error None msg_invalid_response),
                               (w1, c))
                          | Some (resp, msg) \<Rightarrow>
                              (case ar_usage resp of
                                 None \<Rightarrow>
                                   (callOpenAI_catch agentType (Error None msg_usage_undefined),
                                    (w1, if useCache this
                                         then AList.update key
                                                \<lparr>r_content = am_content msg, r_tool_calls = None,
                                                 r_cached = None, r_fallback = None,
                                                 r_choices = ar_choices resp,
                                                 r_model = ar_model resp, r_usage = ar_usage resp,
                                                 r_timestamp = Some (Date_toISOString pf w1),
                                                 r_agentType = Some agentType\<rparr> c
                                         else c))
                               | Some u \<Rightarrow>
                                   (Inr \<lparr>r_content = am_content msg, r_tool_calls = None,
                                         r_cached = None, r_fallback = None,
                                         r_choices = ar_choices resp, r_model = ar_model resp,
                                         r_usage = ar_usage resp,
                                         r_timestamp = Some (Date_toISOString pf w1),
                                         r_agentType = Some agentType\<rparr>,
                                    (w1, if useCache this
                                         then AList.update key
                                                \<lparr>r_content = am_content msg, r_tool_calls = None,
                                                 r_cached = None, r_fallback = None,
                                                 r_choices = ar_choices resp,
                                                 r_model = ar_model resp, r_usage = ar_usage resp,
                                                 r_timestamp = Some (Date_toISOString pf w1),
                                                 r_agentType = Some agentType\<rparr> c
                                         else c))))))))"
  unfolding callOpenAI_def Let_def aiCache_set_def redisClient_setEx_def prod.case snd_conv
  by (rule refl)

lemma first_message_Some: "first_message response = Some (resp, msg) \<Longrightarrow> response = Some resp"
  by (simp add: first_message_def split: option.splits list.splits)

text \<open>The ways a call ends, each with what it leaves in the cache.\<close>

lemma callOpenAI_cases [consumes 1, case_names bad_prompt hit rejected invalid no_usage fresh]:
  assumes "callOpenAI this pf prompt agentType options (w, c) = (x, (w', c'))"
  obtains (bad_prompt) "cacheKey_of pf prompt agentType = None \<or> messages_of prompt agentType = None"
      "x = callOpenAI_catch agentType (Error None msg_invalid_prompt)" "w' = w" "c' = c"
  | (hit) key r where "cacheKey_of pf prompt agentType = Some key" "useCache this"
      "aiCache_get c key = Some r" "x = Inr r" "w' = w" "c' = c"
  | (rejected) key ms e where "cacheKey_of pf prompt agentType = Some key"
      "useCache this \<longrightarrow> aiCache_get c key = None"
      "messages_of prompt agentType = Some ms"
      "client this w (requestConfig this ms options) = (Rejected e, w')"
      "x = callOpenAI_catch agentType e" "c' = c"
  | (invalid) key ms response where "cacheKey_of pf prompt agentType = Some key"
      "useCache this \<longrightarrow> aiCache_get c key = None"
      "messages_of prompt agentType = Some ms"
      "client this w (requestConfig this ms options) = (Resolved response, w')"
      "first_message response = None"
      "x = callOpenAI_catch agentType (Error None msg_invalid_response)" "c' = c"
  | (no_usage) key ms resp msg result where "cacheKey_of pf prompt agentType = Some key"
      "useCache this \<longrightarrow> aiCache_get c key = None"
      "messages_of prompt agentType = Some ms"
      "client this w (requestConfig this ms options) = (Resolved (Some resp), w')"
      "first_message (Some resp) = Some (resp, msg)" "ar_usage resp = None"
      "result = \<lparr>r_content = am_content msg, r_tool_calls = None, r_cached = None,
                 r_fallback = None, r_choices = ar_choices resp, r_model = ar_model resp,
                 r_usage = ar_usage resp, r_timestamp = Some (Date_toISOString pf w'),
                 r_agentType = Some agentType\<rparr>"
      "x = callOpenAI_catch agentType (Error None msg_usage_undefined)"
      "c' = (if useCache this then AList.update key result c else c)"
  | (fresh) key ms resp msg result where "cacheKey_of pf prompt agentType = Some key"
      "useCache this \<longrightarrow> aiCache_get c key = None"
      "messages_of prompt agentType = Some ms"
      "client this w (requestConfig this ms options) = (Resolved (Some resp), w')"
      "first_message (Some resp) = Some (resp, msg)" "ar_usage resp \<noteq> None"
      "result = \<lparr>r_content = am_content msg, r_tool_calls = None, r_cached = None,
                 r_fallback = None, r_choices = ar_choices resp, r_model = ar_model resp,
                 r_usage = ar_usage resp, r_timestamp = Some (Date_toISOString pf w'),
                 r_agentType = Some agentType\<rparr>"
      "x = Inr result" "c' = (if useCache this then AList.update key result c else c)"
proof -
  note eq = assms[unfolded callOpenAI_unfold]
  show ?thesis
  proof (cases "cacheKey_of pf prompt agentType")
    case None
    with eq have "x = callOpenAI_catch agentType (Error None msg_invalid_prompt)" "w' = w" "c' = c"
      by auto
    with None show ?thesis using bad_prompt by blast
  next
    case key: (Some key)
    show ?thesis
    proof (cases "if useCache this then aiCache_get c key else None")
      case (Some r)
      with key eq have "x = Inr r" "w' = w" "c' = c"
        by auto
      moreover from Some have "useCache this" "aiCache_get c key = Some r"
        by (simp_all split: if_splits)
      ultimately show ?thesis using hit key by blast
    next
      case miss: None
      have 1: "useCache this \<longrightarrow> aiCache_get c key = None"
        using miss by (simp split: if_splits)
      show ?thesis
      proof (cases "messages_of prompt agentType")
        case None
        with key miss eq have
          "x = callOpenAI_catch agentType (Error None msg_invalid_prompt)" "w' = w" "c' = c"
          by auto
        with None show ?thesis using bad_prompt by blast
      next
        case ms: (Some ms)
        obtain outcome w1 where cl: "client this w (requestConfig this ms options) = (outcome, w1)"
          by (cases "client this w (requestConfig this ms options)")
        show ?thesis
        proof (cases outcome)
          case (Rejected e)
          with key miss ms cl eq have "x = callOpenAI_catch agentType e" "c' = c" "w1 = w'"
            by auto
          with cl Rejected show ?thesis using rejected[OF key 1 ms] by blast
        next
          case (Resolved response)
          show ?thesis
          proof (cases "first_message response")
            case None
            with key miss ms cl Resolved eq have
              "x = callOpenAI_catch agentType (Error None msg_invalid_response)" "c' = c" "w1 = w'"
              by auto
            with cl Resolved None show ?thesis using invalid[OF key 1 ms] by blast
          next
            case fm: (Some pair)
            obtain resp msg where pair: "pair = (resp, msg)" by (cases pair)
            have response: "response = Some resp"
              using fm pair by (simp add: first_message_Some)
            have 3: "first_message (Some resp) = Some (resp, msg)"
              using fm pair response by simp
            let ?result = "\<lparr>r_content = am_content msg, r_tool_calls = None, r_cached = None,
                   r_fallback = None, r_choices = ar_choices resp, r_model = ar_model resp,
                   r_usage = ar_usage resp, r_timestamp = Some (Date_toISOString pf w1),
                   r_agentType = Some agentType\<rparr>"
            let ?c' = "if useCache this then AList.update key ?result c else c"
            show ?thesis
            proof (cases "ar_usage resp")
              case None
              with key miss ms cl Resolved fm pair eq have
                r: "x = callOpenAI_catch agentType (Error None msg_usage_undefined)" "c' = ?c'"
                "w1 = w'"
                by auto
              have 2: "client this w (requestConfig this ms options) = (Resolved (Some resp), w')"
                using cl Resolved response r(3) by simp
              show ?thesis
                by (rule no_usage[OF key 1 ms 2 3 None _ r(1) r(2)[unfolded r(3)]]) simp
            next
              case (Some u)
              with key miss ms cl Resolved fm pair eq
              have r: "x = Inr ?result" "c' = ?c'" "w1 = w'"
                by auto
              have 2: "client this w (requestConfig this ms options) = (Resolved (Some resp), w')"
                using cl Resolved response r(3) by simp
              have 4: "ar_usage resp \<noteq> None" using Some by simp
              show ?thesis
                by (rule fresh[OF key 1 ms 2 3 4 _ r(1)[unfolded r(3)] r(2)[unfolded r(3)]]) simp
            qed
          qed
        qed
      qed
    qed
  qed
qed

lemma callOpenAI_result:
  assumes "cache_ok c"
    and "callOpenAI this pf prompt agentType options (w, c) = (x, (w', c'))"
  shows "cache_ok c' \<and> (\<forall>r. x = Inr r \<longrightarrow> r_tool_calls r = None)"
  using assms(2)
proof (cases rule: callOpenAI_cases)
  case bad_prompt
  then show ?thesis
    using assms(1) callOpenAI_catch_shape[of agentType "Error None msg_invalid_prompt"] by simp
next
  case (hit key r)
  from hit(3) assms(1) have "r_tool_calls r = None"
    by (simp add: cache_ok_def aiCache_get_def redisClient_get_def)
  with hit(4,6) assms(1) show ?thesis by simp
next
  case (rejected key ms e)
  then show ?thesis
    using assms(1) callOpenAI_catch_shape[of agentType e] by simp
next
  case (invalid key ms response)
  then show ?thesis
    using assms(1) callOpenAI_catch_shape[of agentType "Error None msg_invalid_response"] by simp
next
  case (no_usage key ms resp msg result)
  from no_usage(7) have "r_tool_calls result = None" by simp
  with no_usage(8,9) assms(1) show ?thesis
    using callOpenAI_catch_shape[of agentType "Error None msg_usage_undefined"]
    by (simp add: cache_ok_update)
next
  case (fresh key ms resp msg result)
  from fresh(7) have "r_tool_calls result = None" by simp
  with fresh(8,9) assms(1) show ?thesis by (simp add: cache_ok_update)
qed

lemma chat_without_tool_calls:
  assumes "engine st
     (buildChatPrompt (history_of ss (currentSessionId_of fresh req) @ [user_message (body_message req)]))
     (''chat-'' @ userId_of req) chat_options = (Inr r, st1)"
    and "r_tool_calls r = None"
  shows "chat p engine t fresh req (ss, st) =
     (if r_content r = None \<or> r_content r = Some []
      then (Inl (Error None msg_invalid_response),
            ss(currentSessionId_of fresh req \<mapsto>
                 history_of ss (currentSessionId_of fresh req) @ [user_message (body_message req)]),
            st1)
      else (Inr \<lparr>success = True, sessionId = currentSessionId_of fresh req,
                 message = \<lparr>a_id = uuid_message fresh, a_role = ''assistant'',
                            a_content = the (r_content r), a_timestamp = date_iso fresh\<rparr>,
                 metadata =
                   \<lparr>messageCount =
                      (length (history_of ss (currentSessionId_of fresh req)) + 3) div 2,
                    hasContext = body_context req,
                    cached = (r_cached r = Some True),
                    toolsUsedCount = 0\<rparr>\<rparr>,
            ss(currentSessionId_of fresh req \<mapsto>
                 history_of ss (currentSessionId_of fresh req) @
                 [user_message (body_message req), assistant_message (the (r_content r))]),
            st1))"
proof -
  let ?h1 = "history_of ss (currentSessionId_of fresh req) @ [user_message (body_message req)]"
  have "tool_loop p engine t (''chat-'' @ userId_of req) 0 ?h1 r st1 = (Inr (r, 0), ?h1, st1)"
    using assms(2) by (simp add: tool_loop_stop)
  from chat_engine_answers[OF assms(1) this] have
    "chat p engine t fresh req (ss, st) =
      (if r_content r = None \<or> r_content r = Some []
              then (Inl (Error None msg_invalid_response),
                    ss(currentSessionId_of fresh req \<mapsto> ?h1), st1)
              else (Inr \<lparr>success = True, sessionId = currentSessionId_of fresh req,
                         message = \<lparr>a_id = uuid_message fresh, a_role = ''assistant'',
                                    a_content = the (r_content r),
                                    a_timestamp = date_iso fresh\<rparr>,
                         metadata = \<lparr>messageCount = (length ?h1 + 2) div 2,
                                     hasContext = body_context req,
                                     cached = (r_cached r = Some True),
                                     toolsUsedCount = 0\<rparr>\<rparr>,
                    ss(currentSessionId_of fresh req \<mapsto>
                         ?h1 @ [assistant_message (the (r_content r))]),
                    st1))"
    by (simp add: maxToolCalls_def)
  then show ?thesis by (simp add: messageCount_arith)
qed

lemma chat_agent_fallback:
  "getFallbackResponse (''chat-'' @ userId) = fallback_object fallbacks_chat_content"
  by (simp add: getFallbackResponse_def fallbacks_def Object_prototype_names_def)

lemma chat_agent_fallback_cons:
  "getFallbackResponse (CHR ''c'' # CHR ''h'' # CHR ''a'' # CHR ''t'' # CHR ''-'' # userId) =
     fallback_object fallbacks_chat_content"
  using chat_agent_fallback[of userId] by simp



lemma chat_service_cases [consumes 2, case_names throws answers]:
  assumes "chat p (service_engine this pf) t fresh req (ss, (w, c)) = (out, ss', (w', c'))"
    and "cache_ok c"
  obtains (throws) e where
      "callOpenAI this pf
         (PromptMessages (buildChatPrompt (history_of ss (currentSessionId_of fresh req) @
                                           [user_message (body_message req)])))
         (''chat-'' @ userId_of req) chat_options (w, c) = (Inl e, (w', c'))"
      "\<And>p' t'. chat p' (service_engine this pf) t' fresh req (ss, (w, c)) =
         (Inl e,
          ss(currentSessionId_of fresh req \<mapsto>
               history_of ss (currentSessionId_of fresh req) @ [user_message (body_message req)]),
          (w', c'))"
  | (answers) r where
      "callOpenAI this pf
         (PromptMessages (buildChatPrompt (history_of ss (currentSessionId_of fresh req) @
                                           [user_message (body_message req)])))
         (''chat-'' @ userId_of req) chat_options (w, c) = (Inr r, (w', c'))"
      "r_tool_calls r = None"
      "\<And>p' t'. chat p' (service_engine this pf) t' fresh req (ss, (w, c)) =
         (if r_content r = None \<or> r_content r = Some []
          then (Inl (Error None msg_invalid_response),
                ss(currentSessionId_of fresh req \<mapsto>
                     history_of ss (currentSessionId_of fresh req) @
                     [user_message (body_message req)]),
                (w', c'))
          else (Inr \<lparr>success = True, sessionId = currentSessionId_of fresh req,
                     message = \<lparr>a_id = uuid_message fresh, a_role = ''assistant'',
                                a_content = the (r_content r), a_timestamp = date_iso fresh\<rparr>,
                     metadata =
                       \<lparr>messageCount =
                          (length (history_of ss (currentSessionId_of fresh req)) + 3) div 2,
                        hasContext = body_context req,
                        cached = (r_cached r = Some True),
                        toolsUsedCount = 0\<rparr>\<rparr>,
                ss(currentSessionId_of fresh req \<mapsto>
                     history_of ss (currentSessionId_of fresh req) @
                     [user_message (body_message req), assistant_message (the (r_content r))]),
                (w', c')))"
proof -
  let ?h1 = "history_of ss (currentSessionId_of fresh req) @ [user_message (body_message req)]"
  let ?agent = "''chat-'' @ userId_of req"
  obtain x w1 c1 where
    call: "callOpenAI this pf (PromptMessages (buildChatPrompt ?h1)) ?agent chat_options (w, c) =
             (x, (w1, c1))"
    by (metis prod.exhaust)
  then have eng: "service_engine this pf (w, c) (buildChatPrompt ?h1) ?agent chat_options =
                    (x, (w1, c1))"
    by (simp add: service_engine_def)
  show ?thesis
  proof (cases x)
    case (Inl e)
    note thr = chat_engine_throws[where engine = "service_engine this pf" and st = "(w, c)",
        OF eng[unfolded Inl]]
    from thr[of p t] assms(1) have "w1 = w'" "c1 = c'" by simp_all
    with call Inl thr show ?thesis by (intro throws[of e]) simp_all
  next
    case (Inr r)
    from callOpenAI_result[OF assms(2) call] Inr have tc: "r_tool_calls r = None" by simp
    note ans = chat_without_tool_calls[where engine = "service_engine this pf" and st = "(w, c)",
        OF eng[unfolded Inr] tc]
    from ans[of p t] assms(1) have "w1 = w'" "c1 = c'" by (simp_all split: if_splits)
    with call Inr tc ans show ?thesis by (intro answers[of r]) simp_all
  qed
qed

lemma cache_ok_empty: "cache_ok []"
  by (simp add: cache_ok_def)

lemmas service_eval =
  service_engine_def callOpenAI_unfold cacheKey_of_def messages_of_def requestConfig_def
  first_message_def generateCacheKey_def aiCache_get_def redisClient_get_def
  callOpenAI_catch_def chat_agent_fallback_cons fallback_object_def truthy_nat_def

lemma pong_turn:
  "chat stub_runtime (service_engine (stub_service pong_client) stub_platform) stub_tools fresh_a
     (request None ''hello'' (Some ''u1'')) (Map.empty, (0, [])) =
   (Inr \<lparr>success = True, sessionId = ''uuid-a1'',
         message = \<lparr>a_id = ''uuid-a2'', a_role = ''assistant'', a_content = ''pong'',
                    a_timestamp = ''2025-01-01T00:00:01.000Z''\<rparr>,
         metadata = \<lparr>messageCount = 1, hasContext = False, cached = False,
                     toolsUsedCount = 0\<rparr>\<rparr>,
    [''uuid-a1'' \<mapsto> [user_message ''hello'', assistant_message ''pong'']],
    (1, [(generateCacheKey (md5 stub_platform)
            (JSON_stringify stub_platform (buildChatPrompt [user_message ''hello'']))
            ''chat-u1'',
          \<lparr>r_content = Some ''pong'', r_tool_calls = None, r_cached = None, r_fallback = None,
           r_choices = Some [\<lparr>ch_message = Some \<lparr>am_content = Some ''pong'',
                                                 am_tool_calls = Some [health_call]\<rparr>\<rparr>],
           r_model = Some ''gpt-4o-mini'', r_usage = Some 42,
           r_timestamp = Some ''2025-01-01T00:00:00.000Z'',
           r_agentType = Some ''chat-u1''\<rparr>)]))"
  by (simp add: chat_eval service_eval request_def fresh_a_def stub_service_def stub_platform_def
      pong_client_def tool_loop_stop)

section \<open>What the administration endpoints remove\<close>

lemma match_here_dot_star: "match_here [RDotStar] s"
  by (induction s) simp_all

lemma match_here_ai: "match_here (RegExp (replace_first_star ''ai:*'')) s = startsWith s ''ai:''"
proof -
  have rx: "RegExp (replace_first_star ''ai:*'') =
              [RChar CHR ''a'', RChar CHR ''i'', RChar CHR '':'', RDotStar]"
    by simp
  show ?thesis
  proof (cases s)
    case Nil
    then show ?thesis by (simp add: rx)
  next
    case s1: (Cons a s1)
    show ?thesis
    proof (cases s1)
      case Nil
      with s1 show ?thesis by (simp add: rx)
    next
      case s2: (Cons b s2)
      show ?thesis
      proof (cases s2)
        case Nil
        with s1 s2 show ?thesis by (simp add: rx)
      next
        case (Cons d s3)
        with s1 s2 show ?thesis by (auto simp add: rx match_here_dot_star)
      qed
    qed
  qed
qed

lemma regex_test_ai:
  "regex_test (RegExp (replace_first_star ''ai:*'')) key = String_includes key ''ai:''"
proof (induction key)
  case Nil
  show ?case by simp
next
  case (Cons a key)
  have "regex_test (RegExp (replace_first_star ''ai:*'')) (a # key) =
          (match_here (RegExp (replace_first_star ''ai:*'')) (a # key) \<or>
           regex_test (RegExp (replace_first_star ''ai:*'')) key)"
    by (rule regex_test.simps)
  with Cons show ?case by (simp only: match_here_ai String_includes.simps)
qed

lemma redisClient_keys_ai:
  "redisClient_keys ''ai:*'' c = filter (\<lambda>key. String_includes key ''ai:'') (map fst c)"
proof -
  have "regex_test (RegExp (replace_first_star ''ai:*'')) = (\<lambda>key. String_includes key ''ai:'')"
    by (rule ext) (rule regex_test_ai)
  then show ?thesis unfolding redisClient_keys_def Let_def by (simp only:)
qed

lemma Map_delete_lookup: "map_of (snd (Map_delete k c)) = (map_of c)(k := None)"
  by (auto simp add: Map_delete_def delete_conv' split: option.splits)

lemma redisClient_del_array_lookup:
  "map_of (snd (redisClient_del_array ks c)) k = (if k \<in> set ks then None else map_of c k)"
proof (induction ks arbitrary: c)
  case Nil
  show ?case by simp
next
  case (Cons k0 ks)
  obtain present m where d: "Map_delete k0 c = (present, m)" by (cases "Map_delete k0 c")
  obtain n m' where r: "redisClient_del_array ks m = (n, m')" by (cases "redisClient_del_array ks m")
  have m: "map_of m = (map_of c)(k0 := None)"
    using Map_delete_lookup[of k0 c] d by simp
  have "map_of m' k = (if k \<in> set ks then None else map_of m k)"
    using Cons[of m] r by simp
  with d r m show ?case by simp
qed

text \<open>
  \<^verbatim>\<open>flush\<close> removes exactly the keys that contain \<^verbatim>\<open>ai:\<close> and leaves the value of every
  other key as it was.
\<close>

lemma aiCache_flush_lookup:
  "map_of (snd (aiCache_flush c)) k = (if String_includes k ''ai:'' then None else map_of c k)"
proof (cases "redisClient_keys ''ai:*'' c = []")
  case True
  then have "aiCache_flush c = (True, c)"
    by (simp add: aiCache_flush_def)
  moreover have "map_of c k = None" if "String_includes k ''ai:''"
  proof (rule ccontr)
    assume "map_of c k \<noteq> None"
    then have "k \<in> fst ` set c" by (auto simp add: map_of_eq_None_iff)
    with that have "k \<in> set (redisClient_keys ''ai:*'' c)"
      by (simp add: redisClient_keys_ai)
    with True show False by simp
  qed
  ultimately show ?thesis by simp
next
  case False
  then have "aiCache_flush c =
      (True, snd (redisClient_del_array (redisClient_keys ''ai:*'' c) c))"
    by (simp add: aiCache_flush_def)
  then have "map_of (snd (aiCache_flush c)) k =
      (if k \<in> set (redisClient_keys ''ai:*'' c) then None else map_of c k)"
    by (simp add: redisClient_del_array_lookup)
  moreover have "map_of c k = None" if "k \<notin> fst ` set c"
    using that by (simp add: map_of_eq_None_iff)
  ultimately show ?thesis by (auto simp add: redisClient_keys_ai)
qed


lemma deleteKey_lookup:
  "map_of (snd (deleteKey key c)) k =
     (if startsWith key ''ai:'' \<and> k = key then None else map_of c k)"
  using Map_delete_lookup[of key c]
  by (auto simp add: deleteKey_def redisClient_del_def split: prod.splits)

text \<open>Removing entries keeps the invariants of the cache that the chat turn relies on.\<close>

lemma cache_ok_flush: "cache_ok c \<Longrightarrow> cache_ok (snd (aiCache_flush c))"
  by (simp add: cache_ok_def aiCache_flush_lookup split: if_splits)

lemma cache_ok_deleteKey: "cache_ok c \<Longrightarrow> cache_ok (snd (deleteKey key c))"
  by (simp add: cache_ok_def deleteKey_lookup split: if_splits)

section \<open>The \<^verbatim>\<open>cached\<close> flag of a chat answer\<close>

text \<open>
  No object that \<^verbatim>\<open>callOpenAI\<close> builds has a \<^verbatim>\<open>cached\<close> property. From a cache whose
  entries have none, every answer of the service, hit or not, comes without it, and
  the metadata of a chat answer say \<^verbatim>\<open>cached: false\<close>.
\<close>

lemma cache_unflagged_ok: "cache_unflagged c \<Longrightarrow> cache_ok c"
  by (simp add: cache_unflagged_def cache_ok_def)

lemma cache_unflagged_update:
  "cache_unflagged c \<Longrightarrow> r_tool_calls r = None \<Longrightarrow> r_cached r = None \<Longrightarrow>
   cache_unflagged (AList.update k r c)"
  by (simp add: cache_unflagged_def update_conv')

lemma callOpenAI_unflagged:
  assumes "cache_unflagged c"
    and "callOpenAI this pf prompt agentType options (w, c) = (x, (w', c'))"
  shows "cache_unflagged c' \<and> (\<forall>r. x = Inr r \<longrightarrow> r_cached r = None)"
  using assms(2)
proof (cases rule: callOpenAI_cases)
  case bad_prompt
  then show ?thesis
    using assms(1) callOpenAI_catch_shape[of agentType "Error None msg_invalid_prompt"] by simp
next
  case (hit key r)
  from hit(3) assms(1) have "r_cached r = None"
    by (simp add: cache_unflagged_def aiCache_get_def redisClient_get_def)
  with hit(4,6) assms(1) show ?thesis by simp
next
  case (rejected key ms e)
  then show ?thesis
    using assms(1) callOpenAI_catch_shape[of agentType e] by simp
next
  case (invalid key ms response)
  then show ?thesis
    using assms(1) callOpenAI_catch_shape[of agentType "Error None msg_invalid_response"] by simp
next
  case (no_usage key ms resp msg result)
  from no_usage(7) have "r_tool_calls result = None" "r_cached result = None" by simp_all
  with no_usage(8,9) assms(1) show ?thesis
    using callOpenAI_catch_shape[of agentType "Error None msg_usage_undefined"]
    by (simp add: cache_unflagged_update)
next
  case (fresh key ms resp msg result)
  from fresh(7) have "r_tool_calls result = None" "r_cached result = None" by simp_all
  with fresh(8,9) assms(1) show ?thesis by (simp add: cache_unflagged_update)
qed

lemma chat_cached_always_false:
  assumes "cache_unflagged c"
    and "chat p (service_engine this pf) t fresh req (ss, (w, c)) = (Inr resp, ss', (w', c'))"
  shows "\<not> cached (metadata resp) \<and> cache_unflagged c'"
  using assms(2) cache_unflagged_ok[OF assms(1)]
proof (cases rule: chat_service_cases)
  case (throws e)
  from throws(2)[of p t] assms(2) show ?thesis by simp
next
  case (answers r)
  from callOpenAI_unflagged[OF assms(1) answers(1)] have "r_cached r = None" "cache_unflagged c'"
    by simp_all
  with answers(3)[of p t] assms(2) show ?thesis by (auto split: if_splits)
qed

section \<open>The keys of the cache\<close>


lemma generateCacheKey_in_namespace: "startsWith (generateCacheKey h prompt agentType) ''ai:''"
  by (simp add: generateCacheKey_def)

lemma cacheKey_of_in_namespace: "cacheKey_of pf prompt agentType = Some key \<Longrightarrow> startsWith key ''ai:''"
  by (auto simp add: cacheKey_of_def generateCacheKey_in_namespace split: prompt.splits)

lemma in_namespace_keys: "in_namespace c = (\<forall>key \<in> fst ` set c. startsWith key ''ai:'')"
  by (simp add: in_namespace_def list_all_iff)



lemma in_namespace_update:
  "in_namespace c \<Longrightarrow> startsWith key ''ai:'' \<Longrightarrow> in_namespace (AList.update key v c)"
  by (simp add: in_namespace_keys dom_update)



lemma callOpenAI_in_namespace:
  assumes "in_namespace c"
    and "callOpenAI this pf prompt agentType options (w, c) = (x, (w', c'))"
  shows "in_namespace c'"
  using assms(2)
proof (cases rule: callOpenAI_cases)
  case (no_usage key ms resp msg result)
  with assms(1) cacheKey_of_in_namespace[OF no_usage(1)] show ?thesis
    by (simp add: in_namespace_update)
next
  case (fresh key ms resp msg result)
  with assms(1) cacheKey_of_in_namespace[OF fresh(1)] show ?thesis
    by (simp add: in_namespace_update)
qed (simp_all add: assms(1))



lemma chat_in_namespace:
  assumes "in_namespace c" and "cache_ok c"
    and "chat p (service_engine this pf) t fresh req (ss, (w, c)) = (out, ss', (w', c'))"
  shows "in_namespace c'"
  using assms(3,2)
proof (cases rule: chat_service_cases)
  case (throws e)
  from callOpenAI_in_namespace[OF assms(1) throws(1)] show ?thesis .
next
  case (answers r)
  from callOpenAI_in_namespace[OF assms(1) answers(1)] show ?thesis .
qed

section \<open>The claims\<close>

text \<open>
  C1. A chat turn ends after at most \<^const>\<open>maxToolCalls\<close> + 1 calls of the reasoning
  engine, whatever the engine answers. A successful turn reports at most
  \<^const>\<open>maxToolCalls\<close> tool rounds, and when it reports that many its content is the
  apology, and the history of the session ends with one message of role
  \<^verbatim>\<open>assistant\<close> whose content is the apology, after the user's message and the messages
  of the rounds. With an engine whose every answer asks for tools the turn runs
  exactly \<^const>\<open>maxToolCalls\<close> = 5 rounds, calls the engine six times, and answers
  \<^verbatim>\<open>success: true\<close> with the apology as content. The apology is not the empty text.
\<close>

theorem chat_tool_loop_bounded:
  assumes "chat p (spy engine) t fresh req (ss, (calls0, st)) = (out, ss', (calls1, st'))"
  shows "maxToolCalls = 5 \<and> maxToolCalls_content \<noteq> [] \<and>
    (\<exists>new. calls1 = calls0 @ new \<and> 1 \<le> length new \<and> length new \<le> Suc maxToolCalls) \<and>
    (\<forall>resp. out = Inr resp \<longrightarrow>
       success resp \<and> a_role (message resp) = ''assistant'' \<and>
       toolsUsedCount (metadata resp) \<le> maxToolCalls \<and>
       (toolsUsedCount (metadata resp) = maxToolCalls \<longrightarrow>
          a_content (message resp) = maxToolCalls_content \<and>
          (\<exists>rounds.
             ss' (currentSessionId_of fresh req) =
               Some (history_of ss (currentSessionId_of fresh req) @
                     \<lparr>m_role = ''user'', m_content = Some (body_message req),
                      m_tool_calls = None, m_tool_call_id = None, m_name = None\<rparr> #
                     rounds @
                     [\<lparr>m_role = ''assistant'', m_content = Some maxToolCalls_content,
                       m_tool_calls = None, m_tool_call_id = None, m_name = None\<rparr>]) \<and>
             (\<forall>m \<in> set rounds. round_message m)))) \<and>
    (always_requests_tools engine \<longrightarrow>
       (\<exists>resp rounds.
          out = Inr resp \<and> success resp \<and> toolsUsedCount (metadata resp) = maxToolCalls \<and>
          a_content (message resp) = maxToolCalls_content \<and>
          length calls1 = length calls0 + Suc maxToolCalls \<and>
          ss' (currentSessionId_of fresh req) =
            Some (history_of ss (currentSessionId_of fresh req) @
                  \<lparr>m_role = ''user'', m_content = Some (body_message req),
                   m_tool_calls = None, m_tool_call_id = None, m_name = None\<rparr> #
                  rounds @
                  [\<lparr>m_role = ''assistant'', m_content = Some maxToolCalls_content,
                    m_tool_calls = None, m_tool_call_id = None, m_name = None\<rparr>]) \<and>
          (\<forall>m \<in> set rounds. round_message m)))"
proof -
  let ?sid = "currentSessionId_of fresh req"
  let ?h1 = "history_of ss ?sid @ [user_message (body_message req)]"
  let ?agent = "''chat-'' @ userId_of req"
  obtain ans s1 where inner: "engine st (buildChatPrompt ?h1) ?agent chat_options = (ans, s1)"
    by (cases "engine st (buildChatPrompt ?h1) ?agent chat_options")
  let ?c1 = "calls0 @ [(buildChatPrompt ?h1, ?agent)]"
  have first: "spy engine (calls0, st) (buildChatPrompt ?h1) ?agent chat_options = (ans, (?c1, s1))"
    using inner by (simp add: spy_def)
  show ?thesis
  proof (cases ans)
    case (Inl err)
    with first assms have res: "out = Inl err" "calls1 = ?c1"
      by (simp_all add: chat_engine_throws)
    have "\<not> always_requests_tools engine"
      using inner Inl unfolding always_requests_tools_def by (metis Inl_Inr_False fst_conv)
    with res show ?thesis by (simp add: maxToolCalls_def maxToolCalls_content_truthy)
  next
    case (Inr r)
    obtain looped h2 c2 s2 where
      loop: "tool_loop p (spy engine) t ?agent 0 ?h1 r (?c1, s1) = (looped, h2, (c2, s2))"
      by (metis prod.exhaust)
    from tool_loop_spy_calls[OF loop] obtain new where new:
      "c2 = ?c1 @ new" "length new \<le> maxToolCalls"
      "\<forall>r' n'. looped = Inr (r', n') \<longrightarrow> n' \<le> maxToolCalls \<and> length new = n'"
      by auto
    from tool_loop_history[OF loop] obtain rounds where rounds:
      "h2 = ?h1 @ rounds" "\<forall>m \<in> set rounds. round_message m"
      by blast
    note unfolded = chat_engine_answers[OF first[unfolded Inr] loop]
    have calls: "calls1 = c2"
      using assms unfolded by (auto simp add: Let_def split: sum.splits prod.splits if_splits)
    have bound: "\<exists>new'. calls1 = calls0 @ new' \<and> 1 \<le> length new' \<and> length new' \<le> Suc maxToolCalls"
      using calls new(1,2) by simp
    have ok: "\<forall>resp. out = Inr resp \<longrightarrow>
       success resp \<and> a_role (message resp) = ''assistant'' \<and>
       toolsUsedCount (metadata resp) \<le> maxToolCalls \<and>
       (toolsUsedCount (metadata resp) = maxToolCalls \<longrightarrow>
          a_content (message resp) = maxToolCalls_content)"
      using assms unfolded new(3)
      by (auto simp add: Let_def split: sum.splits prod.splits if_splits)
    have stored: "\<forall>resp. out = Inr resp \<longrightarrow>
       ss' ?sid = Some (history_of ss ?sid @ user_message (body_message req) # rounds @
                        [assistant_message (a_content (message resp))])"
      using assms unfolded rounds(1)
      by (auto simp add: Let_def split: sum.splits prod.splits if_splits)
    have at_bound: "\<forall>resp. out = Inr resp \<longrightarrow>
       success resp \<and> a_role (message resp) = ''assistant'' \<and>
       toolsUsedCount (metadata resp) \<le> maxToolCalls \<and>
       (toolsUsedCount (metadata resp) = maxToolCalls \<longrightarrow>
          a_content (message resp) = maxToolCalls_content \<and>
          (\<exists>rounds.
             ss' ?sid =
               Some (history_of ss ?sid @
                     \<lparr>m_role = ''user'', m_content = Some (body_message req),
                      m_tool_calls = None, m_tool_call_id = None, m_name = None\<rparr> #
                     rounds @
                     [\<lparr>m_role = ''assistant'', m_content = Some maxToolCalls_content,
                       m_tool_calls = None, m_tool_call_id = None, m_name = None\<rparr>]) \<and>
             (\<forall>m \<in> set rounds. round_message m)))"
    proof (intro allI impI conjI)
      fix resp
      assume o: "out = Inr resp"
      from ok o show "success resp" "a_role (message resp) = ''assistant''"
        "toolsUsedCount (metadata resp) \<le> maxToolCalls"
        by simp_all
      assume m: "toolsUsedCount (metadata resp) = maxToolCalls"
      from ok o m show c: "a_content (message resp) = maxToolCalls_content" by simp
      from stored o c have
        "ss' ?sid = Some (history_of ss ?sid @ user_message (body_message req) # rounds @
                          [assistant_message maxToolCalls_content])"
        by simp
      then have
        "ss' ?sid =
           Some (history_of ss ?sid @
                 \<lparr>m_role = ''user'', m_content = Some (body_message req),
                  m_tool_calls = None, m_tool_call_id = None, m_name = None\<rparr> #
                 rounds @
                 [\<lparr>m_role = ''assistant'', m_content = Some maxToolCalls_content,
                   m_tool_calls = None, m_tool_call_id = None, m_name = None\<rparr>])"
        by (simp add: user_message_def assistant_message_def)
      with rounds(2) show
        "\<exists>rounds.
           ss' ?sid =
             Some (history_of ss ?sid @
                   \<lparr>m_role = ''user'', m_content = Some (body_message req),
                    m_tool_calls = None, m_tool_call_id = None, m_name = None\<rparr> #
                   rounds @
                   [\<lparr>m_role = ''assistant'', m_content = Some maxToolCalls_content,
                     m_tool_calls = None, m_tool_call_id = None, m_name = None\<rparr>]) \<and>
           (\<forall>m \<in> set rounds. round_message m)"
        by blast
    qed
    have always: "\<exists>resp rounds.
          out = Inr resp \<and> success resp \<and> toolsUsedCount (metadata resp) = maxToolCalls \<and>
          a_content (message resp) = maxToolCalls_content \<and>
          length calls1 = length calls0 + Suc maxToolCalls \<and>
          ss' ?sid =
            Some (history_of ss ?sid @
                  \<lparr>m_role = ''user'', m_content = Some (body_message req),
                   m_tool_calls = None, m_tool_call_id = None, m_name = None\<rparr> #
                  rounds @
                  [\<lparr>m_role = ''assistant'', m_content = Some maxToolCalls_content,
                    m_tool_calls = None, m_tool_call_id = None, m_name = None\<rparr>]) \<and>
          (\<forall>m \<in> set rounds. round_message m)"
      if a: "always_requests_tools engine"
    proof -
      from a inner Inr obtain calls where c: "r_tool_calls r = Some calls" "calls \<noteq> []"
        unfolding always_requests_tools_def by (metis Pair_inject sum.inject(2))
      from tool_loop_always[OF spy_always[OF a] c, of 0 p t ?agent ?h1 "(?c1, s1)"] loop
      obtain r' where l: "looped = Inr (r', maxToolCalls)"
        by auto
      with new(3) have len: "length new = maxToolCalls" by simp
      from assms unfolded l have
        "out = Inr \<lparr>success = True, sessionId = ?sid,
                    message = \<lparr>a_id = uuid_message fresh, a_role = ''assistant'',
                               a_content = maxToolCalls_content, a_timestamp = date_iso fresh\<rparr>,
                    metadata = \<lparr>messageCount = (length h2 + 2) div 2,
                                hasContext = body_context req,
                                cached = (r_cached r' = Some True),
                                toolsUsedCount = maxToolCalls\<rparr>\<rparr>"
        "ss' = ss(?sid \<mapsto> h2 @ [assistant_message maxToolCalls_content])"
        by (simp_all add: Let_def maxToolCalls_content_truthy)
      with rounds calls new(1) len show ?thesis
        by (simp add: user_message_def assistant_message_def)
    qed
    from bound at_bound always show ?thesis
      by (simp add: maxToolCalls_def maxToolCalls_content_truthy)
  qed
qed

lemma tool_requesting_engine_always: "always_requests_tools tool_requesting_engine"
  by (simp add: always_requests_tools_def tool_requesting_engine_def health_call_def)

theorem chat_tool_loop_bounded_witness:
  "\<exists>resp ss' calls1 st' rounds.
     chat stub_runtime (spy tool_requesting_engine) stub_tools fresh_a
       (request (Some ''s1'') ''hello'' (Some ''u1'')) (Map.empty, ([], 0)) =
       (Inr resp, ss', (calls1, st')) \<and>
     success resp \<and> toolsUsedCount (metadata resp) = 5 \<and>
     a_content (message resp) = maxToolCalls_content \<and> length calls1 = 6 \<and>
     ss' ''s1'' =
       Some (\<lparr>m_role = ''user'', m_content = Some ''hello'', m_tool_calls = None,
              m_tool_call_id = None, m_name = None\<rparr> #
             rounds @
             [\<lparr>m_role = ''assistant'', m_content = Some maxToolCalls_content,
               m_tool_calls = None, m_tool_call_id = None, m_name = None\<rparr>])"
proof -
  let ?req = "request (Some ''s1'') ''hello'' (Some ''u1'')"
  obtain out ss' calls1 st' where
    c: "chat stub_runtime (spy tool_requesting_engine) stub_tools fresh_a ?req
          (Map.empty, ([], 0)) = (out, ss', (calls1, st'))"
    by (metis prod.exhaust)
  have sid: "currentSessionId_of fresh_a ?req = ''s1''" "body_message ?req = ''hello''"
    "history_of Map.empty ''s1'' = []"
    by (simp_all add: currentSessionId_of_def truthy_string_def request_def history_of_def)
  from chat_tool_loop_bounded[OF c] tool_requesting_engine_always
  obtain resp rounds where
    "out = Inr resp" "success resp" "toolsUsedCount (metadata resp) = maxToolCalls"
    "a_content (message resp) = maxToolCalls_content"
    "length calls1 = length ([] :: (message list \<times> string) list) + Suc maxToolCalls"
    "ss' (currentSessionId_of fresh_a ?req) =
       Some (history_of Map.empty (currentSessionId_of fresh_a ?req) @
             \<lparr>m_role = ''user'', m_content = Some (body_message ?req),
              m_tool_calls = None, m_tool_call_id = None, m_name = None\<rparr> #
             rounds @
             [\<lparr>m_role = ''assistant'', m_content = Some maxToolCalls_content,
               m_tool_calls = None, m_tool_call_id = None, m_name = None\<rparr>])"
    by blast
  with c show ?thesis by (simp add: sid maxToolCalls_def)
qed








text \<open>
  C5 fails on the code. \<^verbatim>\<open>callOpenAI\<close> returns a cached object as it was stored, and no
  stored object has a \<^verbatim>\<open>cached\<close> property, so \<^verbatim>\<open>!!responseMessage.cached\<close> is false on
  a cache hit as well. The failing input: the same user sends the same first message
  in two new sessions. The second turn does not call the OpenAI client (the call
  counter stays at 1, the cache is unchanged) and answers from the cache, and its
  metadata say \<^verbatim>\<open>cached: false\<close>.
\<close>

theorem cached_flag_false_on_cache_hit:
  "(case chat stub_runtime (service_engine (stub_service pong_client) stub_platform) stub_tools
           fresh_a (request None ''hello'' (Some ''u1'')) (Map.empty, (0, [])) of
      (out1, ss1, (w1, c1)) \<Rightarrow>
        (case chat stub_runtime (service_engine (stub_service pong_client) stub_platform) stub_tools
                fresh_b (request None ''hello'' (Some ''u1'')) (ss1, (w1, c1)) of
           (out2, ss2, (w2, c2)) \<Rightarrow>
             w1 = 1 \<and> w2 = 1 \<and> c2 = c1 \<and>
             (\<exists>resp. out2 = Inr resp \<and> a_content (message resp) = ''pong'' \<and>
                     cached (metadata resp) = False)))"
  by (simp add: pong_turn)
     (simp add: chat_eval service_eval request_def fresh_b_def stub_service_def stub_platform_def
      tool_loop_stop)


text \<open>
  C7. Two consecutive turns with the same non-empty \<^verbatim>\<open>sessionId\<close>, the first of them
  answered: the first prompt the second turn sends to the reasoning engine is the
  message of role \<^verbatim>\<open>system\<close> with the fixed instruction, then what the session held
  before, the message of role \<^verbatim>\<open>user\<close> with the text of the first turn, the messages of
  its tool rounds, the message of role \<^verbatim>\<open>assistant\<close> with the text it answered, and the
  message of role \<^verbatim>\<open>user\<close> with the text of the second turn, in this order. For a
  session that did not exist and a first turn without tool rounds this is
  \<^verbatim>\<open>[system, user "hello", assistant "pong", user "and then?"]\<close>.
\<close>

theorem chat_session_continuity:
  assumes "body_sessionId req1 = Some sid" and "sid \<noteq> []" and "body_sessionId req2 = Some sid"
    and "chat p (spy engine) t fresh1 req1 (ss, (calls0, st)) = (Inr resp1, ss1, (calls1, st1))"
    and "chat p (spy engine) t fresh2 req2 (ss1, (calls1, st1)) = (out2, ss2, (calls2, st2))"
  shows "\<exists>rounds rest.
           calls2 = calls1 @
             (\<lparr>m_role = ''system'', m_content = Some systemPrompt_content, m_tool_calls = None,
               m_tool_call_id = None, m_name = None\<rparr> #
              history_of ss sid @
              \<lparr>m_role = ''user'', m_content = Some (body_message req1), m_tool_calls = None,
               m_tool_call_id = None, m_name = None\<rparr> #
              rounds @
              [\<lparr>m_role = ''assistant'', m_content = Some (a_content (message resp1)),
                m_tool_calls = None, m_tool_call_id = None, m_name = None\<rparr>,
               \<lparr>m_role = ''user'', m_content = Some (body_message req2), m_tool_calls = None,
                m_tool_call_id = None, m_name = None\<rparr>],
              ''chat-'' @ userId_of req2) # rest \<and>
           (\<forall>m \<in> set rounds. round_message m)"
proof -
  have sid1: "currentSessionId_of fresh1 req1 = sid" and sid2: "currentSessionId_of fresh2 req2 = sid"
    using assms(1-3) by (simp_all add: currentSessionId_of_def truthy_string_Some)
  from chat_history[OF assms(4)] sid1 obtain rounds where
    h: "ss1 sid = Some (history_of ss sid @ user_message (body_message req1) # rounds @
                        [assistant_message (a_content (message resp1))])"
    and r: "\<forall>m \<in> set rounds. round_message m"
    by auto
  from chat_spy_first_call[OF assms(5)] sid2 obtain rest where
    "calls2 = calls1 @
       (buildChatPrompt (history_of ss1 sid @ [user_message (body_message req2)]),
        ''chat-'' @ userId_of req2) # rest"
    by auto
  with h have "calls2 = calls1 @
       (system_message systemPrompt_content # history_of ss sid @
        user_message (body_message req1) # rounds @
        [assistant_message (a_content (message resp1)), user_message (body_message req2)],
        ''chat-'' @ userId_of req2) # rest"
    by (simp add: history_of_def buildChatPrompt_def)
  then have "calls2 = calls1 @
             (\<lparr>m_role = ''system'', m_content = Some systemPrompt_content, m_tool_calls = None,
               m_tool_call_id = None, m_name = None\<rparr> #
              history_of ss sid @
              \<lparr>m_role = ''user'', m_content = Some (body_message req1), m_tool_calls = None,
               m_tool_call_id = None, m_name = None\<rparr> #
              rounds @
              [\<lparr>m_role = ''assistant'', m_content = Some (a_content (message resp1)),
                m_tool_calls = None, m_tool_call_id = None, m_name = None\<rparr>,
               \<lparr>m_role = ''user'', m_content = Some (body_message req2), m_tool_calls = None,
                m_tool_call_id = None, m_name = None\<rparr>],
              ''chat-'' @ userId_of req2) # rest"
    unfolding system_message_def user_message_def assistant_message_def .
  with r show ?thesis by blast
qed

theorem chat_session_continuity_witness:
  "fst (snd (snd (chat stub_runtime (spy text_engine) stub_tools fresh_b
                    (request (Some ''s1'') ''and then?'' (Some ''u1''))
                    (snd (chat stub_runtime (spy text_engine) stub_tools fresh_a
                            (request (Some ''s1'') ''hello'' (Some ''u1''))
                            (Map.empty, ([], 0))))))) =
   [([\<lparr>m_role = ''system'', m_content = Some systemPrompt_content, m_tool_calls = None,
       m_tool_call_id = None, m_name = None\<rparr>,
      \<lparr>m_role = ''user'', m_content = Some ''hello'', m_tool_calls = None,
       m_tool_call_id = None, m_name = None\<rparr>], ''chat-u1''),
    ([\<lparr>m_role = ''system'', m_content = Some systemPrompt_content, m_tool_calls = None,
       m_tool_call_id = None, m_name = None\<rparr>,
      \<lparr>m_role = ''user'', m_content = Some ''hello'', m_tool_calls = None,
       m_tool_call_id = None, m_name = None\<rparr>,
      \<lparr>m_role = ''assistant'', m_content = Some ''pong'', m_tool_calls = None,
       m_tool_call_id = None, m_name = None\<rparr>,
      \<lparr>m_role = ''user'', m_content = Some ''and then?'', m_tool_calls = None,
       m_tool_call_id = None, m_name = None\<rparr>], ''chat-u1'')]"
proof -
  let ?r1 = "request (Some ''s1'') ''hello'' (Some ''u1'')"
  let ?r2 = "request (Some ''s1'') ''and then?'' (Some ''u1'')"
  let ?s1 = "[''s1'' \<mapsto> [user_message ''hello'', assistant_message ''pong'']]"
  let ?c1 = "[(buildChatPrompt [user_message ''hello''], ''chat-u1'')]"
  obtain resp1 where t1:
    "chat stub_runtime (spy text_engine) stub_tools fresh_a ?r1 (Map.empty, ([], 0)) =
       (Inr resp1, ?s1, (?c1, 1))"
    and c1: "a_content (message resp1) = ''pong''"
    by (simp add: text_turn_hello)
  have t2: "chat stub_runtime (spy text_engine) stub_tools fresh_b ?r2 (?s1, (?c1, 1)) =
      (fst (chat stub_runtime (spy text_engine) stub_tools fresh_b ?r2 (?s1, (?c1, 1))),
       fst (snd (chat stub_runtime (spy text_engine) stub_tools fresh_b ?r2 (?s1, (?c1, 1)))),
       (fst (snd (snd (chat stub_runtime (spy text_engine) stub_tools fresh_b ?r2 (?s1, (?c1, 1))))),
        snd (snd (snd (chat stub_runtime (spy text_engine) stub_tools fresh_b ?r2 (?s1, (?c1, 1)))))))"
    by simp
  have second: "fst (snd (snd (chat stub_runtime (spy text_engine) stub_tools fresh_b ?r2 (?s1, (?c1, 1))))) =
      ?c1 @ [(buildChatPrompt [user_message ''hello'', assistant_message ''pong'',
                               user_message ''and then?''], ''chat-u1'')]"
    by (simp add: chat_eval request_def fresh_b_def text_engine_def tool_loop_stop)
  have "body_sessionId ?r1 = Some ''s1''" "''s1'' \<noteq> []" "body_sessionId ?r2 = Some ''s1''"
    by (simp_all add: request_def)
  from chat_session_continuity[OF this t1 t2] second t1 show ?thesis
    by (simp add: buildChatPrompt_def system_message_def user_message_def assistant_message_def)
qed

text \<open>
  C8 as stated fails on the code: \<^verbatim>\<open>chat\<close> passes the agent type \<^verbatim>\<open>chat-\<close> followed by the
  user id, not \<^verbatim>\<open>chat\<close>, so the key holds the user id. The counterexample is a turn of
  user \<^verbatim>\<open>u1\<close> on an empty cache: the one key in the cache afterwards is the key for the
  agent type \<^verbatim>\<open>chat-u1\<close>, which differs from the key for \<^verbatim>\<open>chat\<close>.
\<close>

theorem chat_key_is_not_for_agent_chat:
  "map fst (snd (snd (snd
     (chat stub_runtime (service_engine (stub_service pong_client) stub_platform) stub_tools fresh_a
        (request None ''hello'' (Some ''u1'')) (Map.empty, (0, [])))))) =
     [generateCacheKey (md5 stub_platform)
        (JSON_stringify stub_platform (buildChatPrompt [user_message ''hello''])) ''chat-u1''] \<and>
   generateCacheKey (md5 stub_platform)
     (JSON_stringify stub_platform (buildChatPrompt [user_message ''hello''])) ''chat-u1'' \<noteq>
   generateCacheKey (md5 stub_platform)
     (JSON_stringify stub_platform (buildChatPrompt [user_message ''hello''])) ''chat''"
  by (simp add: pong_turn) (simp add: generateCacheKey_def)

text \<open>
  C8, amended. With the cache on, a chat turn of the service goes through the cache
  under the key \<^verbatim>\<open>generateCacheKey\<close> gives for the serialised full message list (the
  system message and the history with the new user message) and the agent type
  \<^verbatim>\<open>chat-\<close> followed by the user id. If the cache holds an answer under that key, the
  OpenAI client is not called, the cache is unchanged and the answer's content is the
  cached content. If it holds none, the client is called with the full message list,
  and a well-formed completion is stored under that key.
\<close>

theorem chat_cache_key:
  assumes "useCache this" and "cache_ok c"
    and "prompt = buildChatPrompt (history_of ss (currentSessionId_of fresh req) @
                                   [user_message (body_message req)])"
    and "key = generateCacheKey (md5 pf) (JSON_stringify pf prompt) (''chat-'' @ userId_of req)"
    and "chat p (service_engine this pf) t fresh req (ss, (w, c)) = (out, ss', (w', c'))"
  shows "(\<forall>hit. aiCache_get c key = Some hit \<longrightarrow>
            w' = w \<and> c' = c \<and>
            (\<forall>resp. out = Inr resp \<longrightarrow> r_content hit = Some (a_content (message resp)))) \<and>
         (aiCache_get c key = None \<longrightarrow>
            (\<exists>outcome.
               client this w (requestConfig this prompt chat_options) = (outcome, w') \<and>
               (case outcome of
                  Rejected e \<Rightarrow> c' = c
                | Resolved response \<Rightarrow>
                    (case first_message response of
                       None \<Rightarrow> c' = c
                     | Some (resp, msg) \<Rightarrow>
                         c' = AList.update key
                                \<lparr>r_content = am_content msg, r_tool_calls = None,
                                 r_cached = None, r_fallback = None,
                                 r_choices = ar_choices resp, r_model = ar_model resp,
                                 r_usage = ar_usage resp,
                                 r_timestamp = Some (Date_toISOString pf w'),
                                 r_agentType = Some (''chat-'' @ userId_of req)\<rparr> c))))"
proof -
  let ?agent = "''chat-'' @ userId_of req"
  obtain x where call:
    "callOpenAI this pf (PromptMessages prompt) ?agent chat_options (w, c) = (x, (w', c'))"
    and res: "\<forall>resp. out = Inr resp \<longrightarrow>
                (\<exists>r. x = Inr r \<and> r_content r = Some (a_content (message resp)))"
    using assms(5,2)
  proof (cases rule: chat_service_cases)
    case (throws e)
    from throws(2)[of p t] assms(5) have "\<forall>resp. out \<noteq> Inr resp" by auto
    with throws(1) that[of "Inl e"] show ?thesis unfolding assms(3) by simp
  next
    case (answers r)
    from answers(3)[of p t] assms(5) have
      "\<forall>resp. out = Inr resp \<longrightarrow> r_content r = Some (a_content (message resp))"
      by (auto split: if_splits)
    with answers(1) that[of "Inr r"] show ?thesis unfolding assms(3) by simp
  qed
  have key: "cacheKey_of pf (PromptMessages prompt) ?agent = Some key"
    and ms: "messages_of (PromptMessages prompt) ?agent = Some prompt"
    by (simp_all add: cacheKey_of_def messages_of_def assms(4))
  from call show ?thesis
  proof (cases rule: callOpenAI_cases)
    case bad_prompt
    with key ms show ?thesis by simp
  next
    case (hit key' r)
    with key res show ?thesis by auto
  next
    case (rejected key' ms' e)
    with key ms assms(1) show ?thesis by auto
  next
    case (invalid key' ms' response)
    with key ms assms(1) show ?thesis by auto
  next
    case (no_usage key' ms' resp msg result)
    with key ms assms(1) show ?thesis by auto
  next
    case (fresh key' ms' resp msg result)
    with key ms assms(1) show ?thesis by auto
  qed
qed

theorem chat_cache_key_witness:
  "useCache (stub_service pong_client) \<and> cache_ok [] \<and>
   snd (snd (snd (chat stub_runtime (service_engine (stub_service pong_client) stub_platform)
                    stub_tools fresh_a (request None ''hello'' (Some ''u1''))
                    (Map.empty, (0, []))))) =
   [(generateCacheKey (md5 stub_platform)
       (JSON_stringify stub_platform (buildChatPrompt [user_message ''hello''])) ''chat-u1'',
     \<lparr>r_content = Some ''pong'', r_tool_calls = None, r_cached = None, r_fallback = None,
      r_choices = Some [\<lparr>ch_message = Some \<lparr>am_content = Some ''pong'',
                                            am_tool_calls = Some [health_call]\<rparr>\<rparr>],
      r_model = Some ''gpt-4o-mini'', r_usage = Some 42,
      r_timestamp = Some ''2025-01-01T00:00:00.000Z'',
      r_agentType = Some ''chat-u1''\<rparr>)]"
proof -
  have on: "useCache (stub_service pong_client)" by (simp add: stub_service_def)
  from chat_cache_key[OF on cache_ok_empty refl refl pong_turn] on cache_ok_empty
  show ?thesis
    by (simp add: pong_turn)
qed



text \<open>
  C10. \<^verbatim>\<open>chatSessions\<close> is one map from the caller-supplied session id to a history; the
  user id takes no part in the lookup. After any first turn on a session id, answered
  or failed, by whatever user, the stored history holds a message of role \<^verbatim>\<open>user\<close>
  with the text of that turn. A second turn by user \<open>u2\<close> with the same id sends that
  history, this message included, to the reasoning engine under the agent type of
  \<open>u2\<close>, followed by the message of \<open>u2\<close>, and extends that same history.
\<close>

theorem chat_sessions_shared_between_users:
  assumes "body_sessionId req1 = Some sid" and "sid \<noteq> []" and "body_sessionId req2 = Some sid"
    and "user_id req2 = Some u2" and "u2 \<noteq> []"
    and "chat p (spy engine) t fresh1 req1 (ss, (calls0, st)) = (out1, ss1, (calls1, st1))"
    and "chat p (spy engine) t fresh2 req2 (ss1, (calls1, st1)) = (out2, ss2, (calls2, st2))"
  shows "\<exists>after rest1 rest ext.
           calls1 = calls0 @
             (\<lparr>m_role = ''system'', m_content = Some systemPrompt_content, m_tool_calls = None,
               m_tool_call_id = None, m_name = None\<rparr> #
              history_of ss sid @
              [\<lparr>m_role = ''user'', m_content = Some (body_message req1), m_tool_calls = None,
                m_tool_call_id = None, m_name = None\<rparr>],
              ''chat-'' @ userId_of req1) # rest1 \<and>
           ss1 sid =
             Some (history_of ss sid @
                   \<lparr>m_role = ''user'', m_content = Some (body_message req1), m_tool_calls = None,
                    m_tool_call_id = None, m_name = None\<rparr> # after) \<and>
           calls2 = calls1 @
             (\<lparr>m_role = ''system'', m_content = Some systemPrompt_content, m_tool_calls = None,
               m_tool_call_id = None, m_name = None\<rparr> #
              history_of ss sid @
              \<lparr>m_role = ''user'', m_content = Some (body_message req1), m_tool_calls = None,
               m_tool_call_id = None, m_name = None\<rparr> #
              after @
              [\<lparr>m_role = ''user'', m_content = Some (body_message req2), m_tool_calls = None,
                m_tool_call_id = None, m_name = None\<rparr>],
              ''chat-'' @ u2) # rest \<and>
           ss2 sid =
             Some (history_of ss sid @
                   \<lparr>m_role = ''user'', m_content = Some (body_message req1), m_tool_calls = None,
                    m_tool_call_id = None, m_name = None\<rparr> #
                   after @
                   \<lparr>m_role = ''user'', m_content = Some (body_message req2), m_tool_calls = None,
                    m_tool_call_id = None, m_name = None\<rparr> # ext)"
proof -
  have sid1: "currentSessionId_of fresh1 req1 = sid" and sid2: "currentSessionId_of fresh2 req2 = sid"
    using assms(1-3) by (simp_all add: currentSessionId_of_def truthy_string_Some)
  have u2: "userId_of req2 = u2"
    using assms(4,5) by (simp add: userId_of_def truthy_string_Some)
  from chat_spy_first_call[OF assms(6)] sid1 obtain rest1 where
    c1: "calls1 = calls0 @ (buildChatPrompt (history_of ss sid @ [user_message (body_message req1)]),
                            ''chat-'' @ userId_of req1) # rest1"
    by auto
  from chat_history[OF assms(6)] sid1 obtain appended where
    h: "ss1 sid = Some (history_of ss sid @ user_message (body_message req1) # appended)"
    by auto
  let ?h1 = "history_of ss sid @ user_message (body_message req1) # appended"
  have h1: "history_of ss1 sid = ?h1" using h by (simp add: history_of_def)
  from chat_spy_first_call[OF assms(7)] sid2 u2 h1 obtain rest where
    c: "calls2 = calls1 @ (buildChatPrompt (?h1 @ [user_message (body_message req2)]),
                           ''chat-'' @ u2) # rest"
    by auto
  from chat_history[OF assms(7)] sid2 h1 obtain ext where
    e: "ss2 sid = Some (?h1 @ user_message (body_message req2) # ext)"
    by auto
  have "calls1 = calls0 @
          (system_message systemPrompt_content # history_of ss sid @
           [user_message (body_message req1)], ''chat-'' @ userId_of req1) # rest1 \<and>
        ss1 sid = Some (history_of ss sid @ user_message (body_message req1) # appended) \<and>
        calls2 = calls1 @
          (system_message systemPrompt_content # history_of ss sid @
           user_message (body_message req1) # appended @ [user_message (body_message req2)],
           ''chat-'' @ u2) # rest \<and>
        ss2 sid = Some (history_of ss sid @ user_message (body_message req1) # appended @
                        user_message (body_message req2) # ext)"
    using c1 h c e by (simp add: buildChatPrompt_def)
  then show ?thesis
    unfolding system_message_def user_message_def
    by (intro exI[of _ appended] exI[of _ rest1] exI[of _ rest] exI[of _ ext])
qed

theorem chat_sessions_shared_between_users_witness:
  "fst (snd (snd (chat stub_runtime (spy text_engine) stub_tools fresh_b
                    (request (Some ''s1'') ''what did I say?'' (Some ''bob''))
                    (snd (chat stub_runtime (spy text_engine) stub_tools fresh_a
                            (request (Some ''s1'') ''my token is 1234'' (Some ''alice''))
                            (Map.empty, ([], 0))))))) =
   [([\<lparr>m_role = ''system'', m_content = Some systemPrompt_content, m_tool_calls = None,
       m_tool_call_id = None, m_name = None\<rparr>,
      \<lparr>m_role = ''user'', m_content = Some ''my token is 1234'', m_tool_calls = None,
       m_tool_call_id = None, m_name = None\<rparr>], ''chat-alice''),
    ([\<lparr>m_role = ''system'', m_content = Some systemPrompt_content, m_tool_calls = None,
       m_tool_call_id = None, m_name = None\<rparr>,
      \<lparr>m_role = ''user'', m_content = Some ''my token is 1234'', m_tool_calls = None,
       m_tool_call_id = None, m_name = None\<rparr>,
      \<lparr>m_role = ''assistant'', m_content = Some ''pong'', m_tool_calls = None,
       m_tool_call_id = None, m_name = None\<rparr>,
      \<lparr>m_role = ''user'', m_content = Some ''what did I say?'', m_tool_calls = None,
       m_tool_call_id = None, m_name = None\<rparr>], ''chat-bob'')]"
proof -
  let ?r1 = "request (Some ''s1'') ''my token is 1234'' (Some ''alice'')"
  let ?r2 = "request (Some ''s1'') ''what did I say?'' (Some ''bob'')"
  let ?s1 = "[''s1'' \<mapsto> [user_message ''my token is 1234'', assistant_message ''pong'']]"
  let ?c1 = "[(buildChatPrompt [user_message ''my token is 1234''], ''chat-alice'')]"
  let ?t2 = "chat stub_runtime (spy text_engine) stub_tools fresh_b ?r2 (?s1, (?c1, 1))"
  have first: "snd (chat stub_runtime (spy text_engine) stub_tools fresh_a ?r1 (Map.empty, ([], 0))) =
      (?s1, (?c1, 1))"
    by (simp add: chat_eval request_def fresh_a_def text_engine_def tool_loop_stop)
  then have t1: "chat stub_runtime (spy text_engine) stub_tools fresh_a ?r1 (Map.empty, ([], 0)) =
      (fst (chat stub_runtime (spy text_engine) stub_tools fresh_a ?r1 (Map.empty, ([], 0))),
       ?s1, (?c1, 1))"
    by (metis prod.collapse)
  have t2: "?t2 = (fst ?t2, fst (snd ?t2), (fst (snd (snd ?t2)), snd (snd (snd ?t2))))"
    by simp
  have second: "fst (snd (snd ?t2)) =
      ?c1 @ [(buildChatPrompt [user_message ''my token is 1234'', assistant_message ''pong'',
                               user_message ''what did I say?''], ''chat-bob'')]"
    by (simp add: chat_eval request_def fresh_b_def text_engine_def tool_loop_stop)
  have "body_sessionId ?r1 = Some ''s1''" "''s1'' \<noteq> []" "body_sessionId ?r2 = Some ''s1''"
    "user_id ?r2 = Some ''bob''" "''bob'' \<noteq> []"
    by (simp_all add: request_def)
  from chat_sessions_shared_between_users[OF this t1 t2] second first show ?thesis
    by (simp add: buildChatPrompt_def system_message_def user_message_def assistant_message_def)
qed

end
